theory Spec2Isabelle
  imports Complex_Main "HOL-Library.Word" "HOL-Library.AList"
begin

chapter \<open>The OpenStack machine actuator (pkg/cloud/openstack/machine/actuator.go)\<close>

text \<open>
  A shallow embedding of the actuator: the machine record, the update-diff evaluator,
  the timeout configuration, the address extraction and primary-address resolution, the
  user-data pipeline, the annotation recorder and the Create, Delete, Update and Exists
  entry points. Every collaborator the actuator calls (the cluster configuration
  client, the provider resolver, the compute and network services, the machine-record
  client, the event recorder) is a parameter: a field of the record \<open>world\<close>
  that answers a call from the history of the calls made so far. Each function of the
  actuator takes the history and returns it extended by the calls it made, in order.
\<close>

section \<open>Data model\<close>

subsection \<open>Go maps and errors\<close>

text \<open>
  A Go \<^verbatim>\<open>map[string]string\<close>: \<open>None\<close> is the nil map. Reading a key that is absent
  (or reading the nil map) gives the empty string. Every store of the source follows
  \<^verbatim>\<open>if m == nil { m = make(map[string]string) }\<close> in the same function, which is
  \<open>make_if_nil\<close>; \<open>store\<close> is the assignment \<^verbatim>\<open>m[k] = v\<close> on the map so made.
  HOL equality on this type is \<^verbatim>\<open>reflect.DeepEqual\<close>: the nil map differs from the
  empty one, and two maps are equal when they hold the same keys with the same values.
\<close>

type_synonym gomap = "(string \<rightharpoonup> string) option"

definition index :: "gomap \<Rightarrow> string \<Rightarrow> string" where
  "index m k = (case m of None \<Rightarrow> [] | Some f \<Rightarrow> (case f k of None \<Rightarrow> [] | Some v \<Rightarrow> v))"

definition has_key :: "gomap \<Rightarrow> string \<Rightarrow> bool" where
  "has_key m k = (case m of None \<Rightarrow> False | Some f \<Rightarrow> (case f k of None \<Rightarrow> False | Some v \<Rightarrow> True))"

definition make_if_nil :: "gomap \<Rightarrow> gomap" where
  "make_if_nil m = (case m of None \<Rightarrow> Some Map.empty | Some f \<Rightarrow> Some f)"

definition store :: "gomap \<Rightarrow> string \<Rightarrow> string \<Rightarrow> gomap" where
  "store m k v = (case m of None \<Rightarrow> Some [k \<mapsto> v] | Some f \<Rightarrow> Some (f(k \<mapsto> v)))"

text \<open>
  The reasons of a \<^verbatim>\<open>maoMachine.MachineError\<close> that the actuator builds, and Go error
  values: a plain error made by \<^verbatim>\<open>fmt.Errorf\<close> (or returned by a collaborator), or a
  machine error with its reason and message. \<open>Error\<close> is the method
  \<^verbatim>\<open>Error()\<close>, which \<^verbatim>\<open>%v\<close> prints.
\<close>

datatype MachineStatusError =
    InvalidConfigurationMachineError
  | CreateMachineError
  | DeleteMachineError
  | UpdateMachineError

datatype error =
    Errorf string
  | MachineError MachineStatusError string

fun Error :: "error \<Rightarrow> string" where
  "Error (Errorf msg) = msg"
| "Error (MachineError reason msg) = msg"

text \<open>
  A \<^verbatim>\<open>*maoMachine.MachineError\<close> is its reason and its message; the four
  constructors of the package take the formatted message.
\<close>

type_synonym MachineErr = "MachineStatusError \<times> string"

definition InvalidMachineConfiguration :: "string \<Rightarrow> MachineErr" where
  "InvalidMachineConfiguration msg = (InvalidConfigurationMachineError, msg)"

definition CreateMachine :: "string \<Rightarrow> MachineErr" where
  "CreateMachine msg = (CreateMachineError, msg)"

definition DeleteMachine :: "string \<Rightarrow> MachineErr" where
  "DeleteMachine msg = (DeleteMachineError, msg)"

definition UpdateMachine :: "string \<Rightarrow> MachineErr" where
  "UpdateMachine msg = (UpdateMachineError, msg)"

fun reason_string :: "MachineStatusError \<Rightarrow> string" where
  "reason_string InvalidConfigurationMachineError = ''InvalidConfiguration''"
| "reason_string CreateMachineError = ''CreateError''"
| "reason_string DeleteMachineError = ''DeleteError''"
| "reason_string UpdateMachineError = ''UpdateError''"

text \<open>
  A function of the source that can panic (a nil pointer dereference, the explicit
  \<^verbatim>\<open>panic\<close> of the token issuer) returns an \<open>outcome\<close>: what it returns, or the
  panic, which no caller of the actuator recovers.
\<close>

datatype 'a outcome = Return 'a | Panic string

subsection \<open>The machine record\<close>

text \<open>
  The fields of the machine that the actuator reads, writes or compares. One record
  \<open>ObjectMeta\<close> stands for the machine's own metadata and for the metadata of its
  spec (\<^verbatim>\<open>machine.Spec.ObjectMeta\<close>). A slice is an optional list, \<open>None\<close> the nil
  slice and \<open>Some []\<close> an empty one that is not nil; a pointer is an optional value,
  \<open>None\<close> the nil pointer. The provider spec is the raw extension the machine carries:
  \<open>Raw\<close> its bytes, \<open>Object\<close> the decoded object, an interface value
  (\<^verbatim>\<open>runtime.Object\<close>) that is nil or holds a value of some concrete type: the
  name of the type and the value, in its serialised form.
\<close>

datatype OwnerReference =
  OwnerReference (APIVersion: string) (Kind: string) (OwnerName: string) (UID: string)
    (Controller: "bool option") (BlockOwnerDeletion: "bool option")

record ObjectMeta =
  Name :: string
  GenerateName :: string
  Namespace :: string
  Labels :: gomap
  Annotations :: gomap
  OwnerReferences :: "OwnerReference list option"

datatype RuntimeObject = RuntimeObject (ObjectType: string) (ObjectValue: string)

datatype RawExtension = RawExtension (Raw: "string option") (Object: "RuntimeObject option")

record ProviderSpec =
  Value :: "RawExtension option"

record MachineSpec =
  Spec_ObjectMeta :: ObjectMeta
  ProviderSpec :: ProviderSpec

record NodeAddress =
  Type :: string
  Address :: string

definition NodeInternalIP :: string where "NodeInternalIP = ''InternalIP''"
definition NodeHostName :: string where "NodeHostName = ''Hostname''"
definition NodeInternalDNS :: string where "NodeInternalDNS = ''InternalDNS''"

record MachineStatus =
  ErrorReason :: "MachineStatusError option"
  ErrorMessage :: "string option"
  Addresses :: "NodeAddress list"

record Machine =
  ObjectMeta :: ObjectMeta
  Spec :: MachineSpec
  Status :: MachineStatus

section \<open>The update-diff evaluator\<close>

text \<open>
  \<^verbatim>\<open>reflect.DeepEqual\<close> at the types the evaluator compares, by the rules of the
  package. Two pointers are deeply equal when both are nil or both are not and what
  they point to is deeply equal. Two slices are deeply equal when both are nil or both
  are not, they have the same length and their elements are deeply equal in turn: a
  nil slice and an empty slice that is not nil are not deeply equal. Two maps are
  deeply equal when both are nil or both are not and they hold the same keys with
  deeply equal values. Two interface values are deeply equal when both are nil or they
  hold deeply equal values of the same type. Two structs are deeply equal when their
  fields are; strings and booleans are compared by \<^verbatim>\<open>==\<close>.
\<close>

fun DeepEqual_ptr :: "('a \<Rightarrow> 'a \<Rightarrow> bool) \<Rightarrow> 'a option \<Rightarrow> 'a option \<Rightarrow> bool" where
  "DeepEqual_ptr eq None None = True"
| "DeepEqual_ptr eq (Some x) (Some y) = eq x y"
| "DeepEqual_ptr eq None (Some y) = False"
| "DeepEqual_ptr eq (Some x) None = False"

fun DeepEqual_elems :: "('a \<Rightarrow> 'a \<Rightarrow> bool) \<Rightarrow> 'a list \<Rightarrow> 'a list \<Rightarrow> bool" where
  "DeepEqual_elems eq [] [] = True"
| "DeepEqual_elems eq (x # xs) (y # ys) = (eq x y \<and> DeepEqual_elems eq xs ys)"
| "DeepEqual_elems eq [] (y # ys) = False"
| "DeepEqual_elems eq (x # xs) [] = False"

fun DeepEqual_slice :: "('a \<Rightarrow> 'a \<Rightarrow> bool) \<Rightarrow> 'a list option \<Rightarrow> 'a list option \<Rightarrow> bool" where
  "DeepEqual_slice eq None None = True"
| "DeepEqual_slice eq (Some xs) (Some ys) = (length xs = length ys \<and> DeepEqual_elems eq xs ys)"
| "DeepEqual_slice eq None (Some ys) = False"
| "DeepEqual_slice eq (Some xs) None = False"

fun DeepEqual_map :: "gomap \<Rightarrow> gomap \<Rightarrow> bool" where
  "DeepEqual_map None None = True"
| "DeepEqual_map (Some f) (Some g) = (dom f = dom g \<and> (\<forall>k \<in> dom f. f k = g k))"
| "DeepEqual_map None (Some g) = False"
| "DeepEqual_map (Some f) None = False"

definition DeepEqual_OwnerReference :: "OwnerReference \<Rightarrow> OwnerReference \<Rightarrow> bool" where
  "DeepEqual_OwnerReference a b =
     (APIVersion a = APIVersion b \<and> Kind a = Kind b \<and> OwnerName a = OwnerName b
      \<and> UID a = UID b
      \<and> DeepEqual_ptr (=) (Controller a) (Controller b)
      \<and> DeepEqual_ptr (=) (BlockOwnerDeletion a) (BlockOwnerDeletion b))"

definition DeepEqual_ObjectMeta :: "ObjectMeta \<Rightarrow> ObjectMeta \<Rightarrow> bool" where
  "DeepEqual_ObjectMeta a b =
     (Name a = Name b \<and> GenerateName a = GenerateName b \<and> Namespace a = Namespace b
      \<and> DeepEqual_map (Labels a) (Labels b)
      \<and> DeepEqual_map (Annotations a) (Annotations b)
      \<and> DeepEqual_slice DeepEqual_OwnerReference (OwnerReferences a) (OwnerReferences b))"

definition DeepEqual_Object :: "RuntimeObject \<Rightarrow> RuntimeObject \<Rightarrow> bool" where
  "DeepEqual_Object a b = (ObjectType a = ObjectType b \<and> ObjectValue a = ObjectValue b)"

definition DeepEqual_RawExtension :: "RawExtension \<Rightarrow> RawExtension \<Rightarrow> bool" where
  "DeepEqual_RawExtension a b =
     (DeepEqual_slice (=) (Raw a) (Raw b) \<and> DeepEqual_ptr DeepEqual_Object (Object a) (Object b))"

definition DeepEqual_ProviderSpec :: "ProviderSpec \<Rightarrow> ProviderSpec \<Rightarrow> bool" where
  "DeepEqual_ProviderSpec a b = DeepEqual_ptr DeepEqual_RawExtension (Value a) (Value b)"

text \<open>\<^verbatim>\<open>requiresUpdate(a, b)\<close>: \<open>None\<close> is the nil pointer.\<close>

definition requiresUpdate :: "Machine option \<Rightarrow> Machine option \<Rightarrow> bool" where
  "requiresUpdate a b =
     (case a of None \<Rightarrow> True
      | Some x \<Rightarrow>
         (case b of None \<Rightarrow> True
          | Some y \<Rightarrow>
              \<not> DeepEqual_ObjectMeta (Spec_ObjectMeta (Spec x)) (Spec_ObjectMeta (Spec y))
              \<or> \<not> DeepEqual_ProviderSpec (ProviderSpec (Spec x)) (ProviderSpec (Spec y))
              \<or> Name (ObjectMeta x) \<noteq> Name (ObjectMeta y)))"

section \<open>The timeout configuration\<close>

text \<open>
  \<^verbatim>\<open>strconv.Atoi\<close> of the Go standard library, for the 64-bit \<^verbatim>\<open>int\<close>: an optional
  sign, then one or more decimal digits and nothing else, and a value in the range of
  \<^verbatim>\<open>int\<close>; anything else is an error (\<open>None\<close>).
\<close>

definition is_digit :: "char \<Rightarrow> bool" where
  "is_digit c = ((48::nat) \<le> of_char c \<and> (of_char c :: nat) \<le> 57)"

definition digit_val :: "char \<Rightarrow> int" where
  "digit_val c = int (of_char c :: nat) - 48"

fun digits_val :: "int \<Rightarrow> string \<Rightarrow> int" where
  "digits_val n [] = n"
| "digits_val n (c # cs) = digits_val (n * 10 + digit_val c) cs"

definition Atoi :: "string \<Rightarrow> int option" where
  "Atoi s =
     (let neg = (s \<noteq> [] \<and> hd s = CHR ''-'');
          ds = (if s \<noteq> [] \<and> (hd s = CHR ''-'' \<or> hd s = CHR ''+'') then tl s else s)
      in if ds = [] \<or> \<not> list_all is_digit ds then None
         else (let n = digits_val 0 ds; v = (if neg then - n else n)
               in if - (2 ^ 63) \<le> v \<and> v < 2 ^ 63 then Some v else None))"

text \<open>
  A \<^verbatim>\<open>time.Duration\<close> is an \<^verbatim>\<open>int64\<close> count of nanoseconds, read by \<open>sint\<close>;
  its arithmetic wraps. \<open>Getenv\<close> is \<^verbatim>\<open>os.Getenv\<close>: the empty string for a variable
  that is not set.
\<close>

type_synonym Duration = "64 word"

definition Second :: Duration where "Second = 1000000000"
definition Minute :: Duration where "Minute = 60 * Second"

definition TimeoutInstanceCreate :: "64 word" where "TimeoutInstanceCreate = 5"
definition TimeoutInstanceDelete :: "64 word" where "TimeoutInstanceDelete = 5"
definition RetryIntervalInstanceStatus :: Duration where
  "RetryIntervalInstanceStatus = 10 * Second"

definition getTimeout :: "(string \<Rightarrow> string) \<Rightarrow> string \<Rightarrow> 64 word \<Rightarrow> Duration" where
  "getTimeout Getenv name timeout =
     (let v = Getenv name
      in if v \<noteq> [] then (case Atoi v of Some t \<Rightarrow> word_of_int t | None \<Rightarrow> timeout)
         else timeout)"

text \<open>
  The two lines of \<^verbatim>\<open>Update\<close> that compute the timeout of the delete-confirmation
  poll: \<^verbatim>\<open>getTimeout("CLUSTER_API_OPENSTACK_INSTANCE_DELETE_TIMEOUT", TimeoutInstanceDelete)\<close>
  multiplied by \<^verbatim>\<open>time.Minute\<close>.
\<close>

definition instanceDeleteTimeout :: "(string \<Rightarrow> string) \<Rightarrow> Duration" where
  "instanceDeleteTimeout Getenv =
     getTimeout Getenv ''CLUSTER_API_OPENSTACK_INSTANCE_DELETE_TIMEOUT'' TimeoutInstanceDelete * Minute"

section \<open>Collaborators\<close>

subsection \<open>Their data\<close>

text \<open>
  The provider spec as \<^verbatim>\<open>MachineSpecFromProviderSpec\<close> decodes it (the fields the
  actuator reads), the cloud configuration, a secret, the compute service's instance
  status, and the instance that the instance service lists. Handles of clients and
  services are opaque numbers.
\<close>

record SecretReference =
  SecretName :: string
  SecretNamespace :: string

datatype RootVolume = RootVolume string string string int

record OpenstackProviderSpec =
  UserDataSecret :: "SecretReference option"
  AvailabilityZone :: string
  FloatingIP :: string
  Flavor :: string
  Image :: string
  PrimarySubnet :: string
  RootVolume :: "RootVolume option"

record Cloud =
  AuthInfo :: string
  RegionName :: string

record ClientOpts =
  Opts_AuthInfo :: string
  Opts_RegionName :: string

record Secret =
  Data :: gomap

record InstanceStatus =
  InstanceStatus_ID :: string
  InstanceStatus_AvailabilityZone :: string

text \<open>
  An instance (\<^verbatim>\<open>clients.Instance\<close>). \<open>Instance_Addresses\<close> is the map
  \<^verbatim>\<open>instance.Addresses\<close>, an association list with one pair per network name. The
  value of a network is what the two JSON round trips of \<^verbatim>\<open>getIPsFromInstance\<close> make
  of it: \<open>Inl err\<close> when \<^verbatim>\<open>json.Marshal\<close> fails on it, else the list of its entries
  as they decode into the struct \<^verbatim>\<open>networkInterface\<close> (an entry that does not decode
  leaves the zero struct, a value that is no list leaves the empty list).
\<close>

record networkInterface =
  Addr :: string
  Version :: real
  OS_EXT_IPS_type :: string

record Instance =
  Instance_ID :: string
  Instance_Status :: string
  AccessIPv4 :: string
  Instance_Addresses :: "(string \<times> (error + networkInterface list)) list"

record InstanceListOpts =
  Opts_Name :: string
  Opts_Image :: string
  Opts_Flavor :: string

record Network =
  Network_ID :: string
  Network_Name :: string

record Subnet =
  Subnet_ID :: string
  NetworkID :: string

type_synonym ProviderClient = nat
type_synonym ComputeService = nat
type_synonym NetworkService = nat
type_synonym ServiceClient = nat
type_synonym InstanceService = nat
type_synonym OpenStackMachine = string
type_synonym FloatingIPHandle = string
type_synonym PortID = string

text \<open>
  A \<^verbatim>\<open>context.Context\<close>: the two unconditioned contexts of the standard library, or
  one that carries a deadline or a cancellation signal.
\<close>

datatype Context = TODO | Background | WithCancel nat

subsection \<open>The calls\<close>

text \<open>
  One constructor for each call that leaves the actuator, with the arguments it
  passes. Log lines (\<^verbatim>\<open>klog\<close>) are not recorded.
\<close>

datatype call =
    C_Infrastructures_Get Context string
  | C_GetCloud Machine
  | C_GetCACertificate
  | C_GetProviderClient Cloud string
  | C_compute_NewService ProviderClient ClientOpts
  | C_networking_NewService ProviderClient ClientOpts
  | C_NewNetworkV2 ProviderClient string
  | C_NewInstanceServiceFromMachine Machine
  | C_DoesImageExist InstanceService string
  | C_DoesFlavorExist InstanceService string
  | C_DoesAvailabilityZoneExist InstanceService string
  | C_GetInstanceStatusByName ComputeService Machine string
  | C_GetInstanceList InstanceService InstanceListOpts
  | C_SetMachineLabels InstanceService Machine string
  | C_Secrets_Get Context string string
  | C_masterStartupScript Machine string
  | C_nodeStartupScript Machine string string
  | C_GenerateBootstrapToken
  | C_time_Now
  | C_client_Create Context Secret
  | C_CreateInstance ComputeService string OpenStackMachine string string
  | C_GetOrCreateFloatingIP NetworkService string string
  | C_GetManagementPort ComputeService InstanceStatus
  | C_AssociateFloatingIP NetworkService FloatingIPHandle PortID
  | C_DeleteInstance ComputeService InstanceStatus
  | C_subnets_Get ServiceClient string
  | C_networks_Get ServiceClient string
  | C_networks_List ServiceClient string
  | C_client_Update Context Machine
  | C_client_Status_Update Context Machine
  | C_Eventf Machine string string string
  | C_updateInstanceStatus Machine
  | C_instanceStatus Machine
  | C_PollImmediate Duration Duration

subsection \<open>The world\<close>

text \<open>
  The parameters of the actuator. A field \<open>ans_f\<close> is the answer of the collaborator
  \<open>f\<close> to a call, given the calls made before it. The other fields are what the file
  uses and does not declare: constants of other packages, pure functions of other
  packages (decoding the provider spec, the conversion to the cluster API machine, the
  configuration transpiler, \<^verbatim>\<open>net.ParseIP\<close>, the environment), and whether the
  actuator was built with a machine-record client (\<^verbatim>\<open>oc.client != nil\<close>).
  \<open>ans_client_Update\<close>, \<open>ans_client_Status_Update\<close> and \<open>ans_client_Create\<close> answer
  with the object as the server returns it, which the client writes over the object it
  was given. \<open>ans_PollImmediate\<close> is the number of times the poll evaluates its condition
  after the first time, before its timeout fires.
\<close>

record world =
  client_present :: bool
  Getenv :: "string \<Rightarrow> string"
  InstanceStatusAnnotationKey :: string
  OpenstackIdAnnotationKey :: string
  OpenstackIPAnnotationKey :: string
  MachineRegionLabelName :: string
  MachineAZLabelName :: string
  MachineInstanceTypeLabelName :: string
  TokenTTL :: int
  MachineSpecFromProviderSpec :: "ProviderSpec \<Rightarrow> error + OpenstackProviderSpec"
  NewOpenStackMachine :: "Machine \<Rightarrow> error + OpenStackMachine"
  ParseIP :: "string \<Rightarrow> bool"
  GenerateTokenSecret :: "string \<Rightarrow> int \<Rightarrow> error + Secret"
  clconfig_Parse :: "string \<Rightarrow> string \<times> string \<times> string list"
  clconfig_Convert :: "string \<Rightarrow> string \<Rightarrow> string \<Rightarrow> string \<times> string list"
  report_String :: "string list \<Rightarrow> string"
  json_Marshal :: "string \<Rightarrow> error + string"
  ans_Infrastructures_Get :: "call list \<Rightarrow> string \<Rightarrow> error + string"
  ans_GetCloud :: "call list \<Rightarrow> Machine \<Rightarrow> error + Cloud"
  ans_GetCACertificate :: "call list \<Rightarrow> string"
  ans_GetProviderClient :: "call list \<Rightarrow> Cloud \<Rightarrow> string \<Rightarrow> error + ProviderClient"
  ans_compute_NewService :: "call list \<Rightarrow> ProviderClient \<Rightarrow> ClientOpts \<Rightarrow> error + ComputeService"
  ans_networking_NewService :: "call list \<Rightarrow> ProviderClient \<Rightarrow> ClientOpts \<Rightarrow> error + NetworkService"
  ans_NewNetworkV2 :: "call list \<Rightarrow> ProviderClient \<Rightarrow> string \<Rightarrow> error + ServiceClient"
  ans_NewInstanceServiceFromMachine :: "call list \<Rightarrow> Machine \<Rightarrow> error + InstanceService"
  ans_DoesImageExist :: "call list \<Rightarrow> InstanceService \<Rightarrow> string \<Rightarrow> error option"
  ans_DoesFlavorExist :: "call list \<Rightarrow> InstanceService \<Rightarrow> string \<Rightarrow> error option"
  ans_DoesAvailabilityZoneExist :: "call list \<Rightarrow> InstanceService \<Rightarrow> string \<Rightarrow> error option"
  ans_GetInstanceStatusByName :: "call list \<Rightarrow> ComputeService \<Rightarrow> Machine \<Rightarrow> string \<Rightarrow> error + InstanceStatus option"
  ans_GetInstanceList :: "call list \<Rightarrow> InstanceService \<Rightarrow> InstanceListOpts \<Rightarrow> error + Instance list"
  ans_SetMachineLabels :: "call list \<Rightarrow> InstanceService \<Rightarrow> Machine \<Rightarrow> string \<Rightarrow> error option \<times> Machine"
  ans_Secrets_Get :: "call list \<Rightarrow> string \<Rightarrow> string \<Rightarrow> error + Secret"
  ans_masterStartupScript :: "call list \<Rightarrow> Machine \<Rightarrow> string \<Rightarrow> error + string"
  ans_nodeStartupScript :: "call list \<Rightarrow> Machine \<Rightarrow> string \<Rightarrow> string \<Rightarrow> error + string"
  ans_GenerateBootstrapToken :: "call list \<Rightarrow> error + string"
  ans_time_Now :: "call list \<Rightarrow> int"
  ans_client_Create :: "call list \<Rightarrow> Secret \<Rightarrow> error + Secret"
  ans_CreateInstance :: "call list \<Rightarrow> ComputeService \<Rightarrow> string \<Rightarrow> OpenStackMachine \<Rightarrow> string \<Rightarrow> string \<Rightarrow> error + InstanceStatus"
  ans_GetOrCreateFloatingIP :: "call list \<Rightarrow> NetworkService \<Rightarrow> string \<Rightarrow> string \<Rightarrow> error + FloatingIPHandle"
  ans_GetManagementPort :: "call list \<Rightarrow> ComputeService \<Rightarrow> InstanceStatus \<Rightarrow> error + PortID"
  ans_AssociateFloatingIP :: "call list \<Rightarrow> NetworkService \<Rightarrow> FloatingIPHandle \<Rightarrow> PortID \<Rightarrow> error option"
  ans_DeleteInstance :: "call list \<Rightarrow> ComputeService \<Rightarrow> InstanceStatus \<Rightarrow> error option"
  ans_subnets_Get :: "call list \<Rightarrow> ServiceClient \<Rightarrow> string \<Rightarrow> error + Subnet"
  ans_networks_Get :: "call list \<Rightarrow> ServiceClient \<Rightarrow> string \<Rightarrow> error + Network"
  ans_networks_List :: "call list \<Rightarrow> ServiceClient \<Rightarrow> string \<Rightarrow> error + Network list"
  ans_client_Update :: "call list \<Rightarrow> Machine \<Rightarrow> error + Machine"
  ans_client_Status_Update :: "call list \<Rightarrow> Machine \<Rightarrow> error + Machine"
  ans_updateInstanceStatus :: "call list \<Rightarrow> Machine \<Rightarrow> error option \<times> Machine"
  ans_instanceStatus :: "call list \<Rightarrow> Machine \<Rightarrow> error + Machine option"
  ans_PollImmediate :: "call list \<Rightarrow> Duration \<Rightarrow> Duration \<Rightarrow> nat"

text \<open>
  \<open>ext a c lg\<close> is one call: its answer \<open>a\<close>, and the history \<open>lg\<close> extended by the
  call \<open>c\<close>.
\<close>

definition ext :: "'a \<Rightarrow> call \<Rightarrow> call list \<Rightarrow> 'a \<times> call list" where
  "ext a c lg = (a, lg @ [c])"

section \<open>The actuator\<close>

subsection \<open>Constants\<close>

definition UserDataKey :: string where "UserDataKey = ''userData''"
definition DisableTemplatingKey :: string where "DisableTemplatingKey = ''disableTemplating''"
definition PostprocessorKey :: string where "PostprocessorKey = ''postprocessor''"
definition MachineInstanceStateAnnotationName :: string where
  "MachineInstanceStateAnnotationName = ''machine.openshift.io/instance-state''"
definition ErrorState :: string where "ErrorState = ''ERROR''"
definition createEventAction :: string where "createEventAction = ''Create''"
definition updateEventAction :: string where "updateEventAction = ''Update''"
definition deleteEventAction :: string where "deleteEventAction = ''Delete''"
definition noEventAction :: string where "noEventAction = []"
definition EventTypeNormal :: string where "EventTypeNormal = ''Normal''"
definition EventTypeWarning :: string where "EventTypeWarning = ''Warning''"
definition newline :: string where "newline = [CHR 0x0A]"
definition quote :: string where "quote = [CHR 0x27]"
definition nil_dereference :: string where
  "nil_dereference = ''invalid memory address or nil pointer dereference''"

subsection \<open>Error marking\<close>

text \<open>
  \<^verbatim>\<open>handleMachineError(machine, err, eventAction)\<close>: the error it returns, the machine
  as it leaves it, and the history.
\<close>

definition handleMachineError ::
  "world \<Rightarrow> Machine \<Rightarrow> MachineErr \<Rightarrow> string \<Rightarrow> call list \<Rightarrow> error \<times> Machine \<times> call list" where
  "handleMachineError w machine err eventAction lg =
     (let lg1 = (if eventAction \<noteq> noEventAction
                 then lg @ [C_Eventf machine EventTypeWarning (''Failed'' @ eventAction)
                              (reason_string (fst err))]
                 else lg)
      in if client_present w then
           (let machine1 = machine\<lparr>Status := (Status machine)
                               \<lparr>ErrorReason := Some (fst err), ErrorMessage := Some (snd err)\<rparr>\<rparr>;
                machine2 = machine1\<lparr>ObjectMeta := (ObjectMeta machine1)
                               \<lparr>Annotations := store (make_if_nil (Annotations (ObjectMeta machine1)))
                                   MachineInstanceStateAnnotationName ErrorState\<rparr>\<rparr>
            in (case ext (ans_client_Update w lg1 machine2) (C_client_Update TODO machine2) lg1 of
                  (Inl e, lg2) \<Rightarrow>
                    (Errorf (''unable to update machine status: '' @ Error e), machine2, lg2)
                | (Inr stored, lg2) \<Rightarrow> (MachineError (fst err) (snd err), stored, lg2)))
         else (MachineError (fst err) (snd err), machine, lg1))"

subsection \<open>Provider resolution, validation, instance lookup\<close>

definition getProviderClient ::
  "world \<Rightarrow> Machine \<Rightarrow> call list \<Rightarrow> (error + ProviderClient \<times> Cloud) \<times> call list" where
  "getProviderClient w machine lg =
     (case ext (ans_GetCloud w lg machine) (C_GetCloud machine) lg of
        (Inl err, lg1) \<Rightarrow> (Inl err, lg1)
      | (Inr cloud, lg1) \<Rightarrow>
          (case ext (ans_GetCACertificate w lg1) C_GetCACertificate lg1 of
             (cert, lg2) \<Rightarrow>
               (case ext (ans_GetProviderClient w lg2 cloud cert) (C_GetProviderClient cloud cert) lg2 of
                  (Inl err, lg3) \<Rightarrow> (Inl err, lg3)
                | (Inr provider, lg3) \<Rightarrow> (Inr (provider, cloud), lg3))))"

definition validateMachine :: "world \<Rightarrow> Machine \<Rightarrow> call list \<Rightarrow> error option \<times> call list" where
  "validateMachine w machine lg =
     (case MachineSpecFromProviderSpec w (ProviderSpec (Spec machine)) of
        Inl err \<Rightarrow>
          (Some (Errorf (newline @ ''Error getting the machine spec from the provider spec: ''
                          @ Error err)), lg)
      | Inr machineSpec \<Rightarrow>
          (case ext (ans_NewInstanceServiceFromMachine w lg machine)
                    (C_NewInstanceServiceFromMachine machine) lg of
             (Inl err, lg1) \<Rightarrow>
               (Some (Errorf (newline @ ''Error getting a new instance service from the machine: ''
                               @ Error err)), lg1)
           | (Inr machineService, lg1) \<Rightarrow>
               (case (if RootVolume machineSpec = None
                      then ext (ans_DoesImageExist w lg1 machineService (Image machineSpec))
                               (C_DoesImageExist machineService (Image machineSpec)) lg1
                      else (None, lg1)) of
                  (Some err, lg2) \<Rightarrow> (Some err, lg2)
                | (None, lg2) \<Rightarrow>
                    (case ext (ans_DoesFlavorExist w lg2 machineService (Flavor machineSpec))
                              (C_DoesFlavorExist machineService (Flavor machineSpec)) lg2 of
                       (Some err, lg3) \<Rightarrow> (Some err, lg3)
                     | (None, lg3) \<Rightarrow>
                         ext (ans_DoesAvailabilityZoneExist w lg3 machineService
                                (AvailabilityZone machineSpec))
                             (C_DoesAvailabilityZoneExist machineService
                                (AvailabilityZone machineSpec)) lg3))))"

definition instanceExists ::
  "world \<Rightarrow> Machine \<Rightarrow> call list \<Rightarrow> (error + Instance option) \<times> call list" where
  "instanceExists w machine lg =
     (case MachineSpecFromProviderSpec w (ProviderSpec (Spec machine)) of
        Inl err \<Rightarrow>
          (Inl (Errorf (newline @
             ''Error getting the machine spec from the provider spec (machine/actuator.go 457): ''
             @ Error err)), lg)
      | Inr machineSpec \<Rightarrow>
          (let opts = \<lparr>Opts_Name = Name (ObjectMeta machine), Opts_Image = Image machineSpec,
                       Opts_Flavor = Flavor machineSpec\<rparr>
           in (case ext (ans_NewInstanceServiceFromMachine w lg machine)
                        (C_NewInstanceServiceFromMachine machine) lg of
                 (Inl err, lg1) \<Rightarrow>
                   (Inl (Errorf (newline @
                      ''Error getting a new instance service from the machine (machine/actuator.go 467): ''
                      @ Error err)), lg1)
               | (Inr machineService, lg1) \<Rightarrow>
                   (case ext (ans_GetInstanceList w lg1 machineService opts)
                             (C_GetInstanceList machineService opts) lg1 of
                      (Inl err, lg2) \<Rightarrow>
                        (Inl (Errorf (newline @ ''Error listing the instances: '' @ Error err)), lg2)
                    | (Inr instanceList, lg2) \<Rightarrow>
                        (case instanceList of
                           [] \<Rightarrow> (Inr None, lg2)
                         | instance # rest \<Rightarrow> (Inr (Some instance), lg2))))))"

subsection \<open>Address extraction and the primary address\<close>

text \<open>
  The address map \<^verbatim>\<open>map[string]string\<close> from network name to address is an
  association list with one pair per key: \<^verbatim>\<open>addrMap[k] = v\<close> is \<open>AList.update\<close>,
  \<^verbatim>\<open>len\<close> is \<open>length\<close>, and the loop that returns the address of the key equal to
  a name is \<open>map_of\<close>. \<open>network_loop\<close> is the inner loop of \<^verbatim>\<open>getIPsFromInstance\<close>
  over the entries of one network, \<open>addresses_loop\<close> the outer one over the networks.
\<close>

type_synonym addrmap = "(string \<times> string) list"

fun network_loop :: "string \<Rightarrow> networkInterface list \<Rightarrow> addrmap \<Rightarrow> addrmap" where
  "network_loop networkName [] addrMap = addrMap"
| "network_loop networkName (netInterface # rest) addrMap =
     network_loop networkName rest
       (if Version netInterface = 4 then AList.update networkName (Addr netInterface) addrMap
        else addrMap)"

fun addresses_loop ::
  "(string \<times> (error + networkInterface list)) list \<Rightarrow> addrmap \<Rightarrow> error + addrmap" where
  "addresses_loop [] addrMap = Inr addrMap"
| "addresses_loop ((networkName, Inl err) # rest) addrMap =
     Inl (Errorf (''extract IP from instance err: '' @ Error err))"
| "addresses_loop ((networkName, Inr networks) # rest) addrMap =
     addresses_loop rest (network_loop networkName networks addrMap)"

definition getIPsFromInstance :: "world \<Rightarrow> Instance option \<Rightarrow> (error + addrmap) outcome" where
  "getIPsFromInstance w instance =
     (case instance of
        None \<Rightarrow> Panic nil_dereference
      | Some i \<Rightarrow>
          if AccessIPv4 i \<noteq> [] \<and> ParseIP w (AccessIPv4 i) then Return (Inr [([], AccessIPv4 i)])
          else (case addresses_loop (Instance_Addresses i) [] of
                  Inl err \<Rightarrow> Return (Inl err)
                | Inr addrMap \<Rightarrow>
                    if length addrMap = 0 then Return (Inl (Errorf ''extract IP from instance err''))
                    else Return (Inr addrMap)))"

definition getNetworkBySubnet ::
  "world \<Rightarrow> ServiceClient \<Rightarrow> string \<Rightarrow> call list \<Rightarrow> (error + Network) \<times> call list" where
  "getNetworkBySubnet w client subnetID lg =
     (case ext (ans_subnets_Get w lg client subnetID) (C_subnets_Get client subnetID) lg of
        (Inl err, lg1) \<Rightarrow>
          (Inl (Errorf (''Could not get subnet '' @ subnetID @ '', '' @ Error err)), lg1)
      | (Inr subnet, lg1) \<Rightarrow>
          (case ext (ans_networks_Get w lg1 client (NetworkID subnet))
                    (C_networks_Get client (NetworkID subnet)) lg1 of
             (Inl err, lg2) \<Rightarrow>
               (Inl (Errorf (''Could not get network '' @ NetworkID subnet @ '', '' @ Error err)), lg2)
           | (Inr network, lg2) \<Rightarrow> (Inr network, lg2)))"

definition getNetworkByPrimaryNetworkTag ::
  "world \<Rightarrow> ServiceClient \<Rightarrow> string \<Rightarrow> call list \<Rightarrow> (error + Network) \<times> call list" where
  "getNetworkByPrimaryNetworkTag w client primaryNetworkTag lg =
     (case ext (ans_networks_List w lg client primaryNetworkTag)
               (C_networks_List client primaryNetworkTag) lg of
        (Inl err, lg1) \<Rightarrow> (Inl err, lg1)
      | (Inr allNetworks, lg1) \<Rightarrow>
          (case allNetworks of
             [] \<Rightarrow>
               (Inl (Errorf (''There are no networks with primary network tag: ''
                              @ primaryNetworkTag)), lg1)
           | [network] \<Rightarrow> (Inr network, lg1)
           | network # other # others \<Rightarrow>
               (Inl (Errorf (''Too many networks with the same primary network tag: ''
                              @ primaryNetworkTag)), lg1)))"

definition getPrimaryMachineIP ::
  "world \<Rightarrow> addrmap \<Rightarrow> Machine \<Rightarrow> string \<Rightarrow> call list \<Rightarrow> (error + string) \<times> call list" where
  "getPrimaryMachineIP w mapAddr machine clusterInfraName lg =
     (if length mapAddr = 1 then (Inr (snd (hd mapAddr)), lg)
      else
        (case MachineSpecFromProviderSpec w (ProviderSpec (Spec machine)) of
           Inl err \<Rightarrow>
             (Inl (Errorf (''Invalid provider spec for machine '' @ Name (ObjectMeta machine))), lg)
         | Inr config \<Rightarrow>
             (let primarySubnet = PrimarySubnet config
              in (case getProviderClient w machine lg of
                    (Inl err, lg1) \<Rightarrow> (Inl err, lg1)
                  | (Inr (provider, cloud), lg1) \<Rightarrow>
                      (case ext (ans_NewNetworkV2 w lg1 provider (RegionName cloud))
                                (C_NewNetworkV2 provider (RegionName cloud)) lg1 of
                         (Inl err, lg2) \<Rightarrow> (Inl err, lg2)
                       | (Inr netClient, lg2) \<Rightarrow>
                           (case (if primarySubnet \<noteq> []
                                  then getNetworkBySubnet w netClient primarySubnet lg2
                                  else getNetworkByPrimaryNetworkTag w netClient
                                         (clusterInfraName @ ''-primaryClusterNetwork'') lg2) of
                              (Inl err, lg3) \<Rightarrow> (Inl err, lg3)
                            | (Inr primaryNetwork, lg3) \<Rightarrow>
                                (case map_of mapAddr (Network_Name primaryNetwork) of
                                   Some addr \<Rightarrow> (Inr addr, lg3)
                                 | None \<Rightarrow>
                                     (Inl (Errorf (''No primary network was found for the machine ''
                                                    @ Name (ObjectMeta machine))), lg3))))))))"

subsection \<open>The annotation recorder\<close>

text \<open>
  \<^verbatim>\<open>updateAnnotation(machine, instanceID, clusterInfraName)\<close>. The error of
  \<^verbatim>\<open>instanceExists\<close> is dropped as in the source, which then reads the instance it got,
  nil or not. \<^verbatim>\<open>equality.Semantic.DeepEqual\<close> on two address slices is equality of the
  lists: it takes the nil slice and the empty one for equal, and both are \<open>[]\<close> here.
\<close>

definition updateAnnotation ::
  "world \<Rightarrow> Machine \<Rightarrow> string \<Rightarrow> string \<Rightarrow> call list
     \<Rightarrow> (error option \<times> Machine) outcome \<times> call list" where
  "updateAnnotation w machine instanceID clusterInfraName lg =
     (let statusCopy = Status machine;
          machine1 = machine\<lparr>ObjectMeta := (ObjectMeta machine)
                        \<lparr>Annotations := store (make_if_nil (Annotations (ObjectMeta machine)))
                            (OpenstackIdAnnotationKey w) instanceID\<rparr>\<rparr>
      in (case instanceExists w machine1 lg of
            (found, lg1) \<Rightarrow>
              (let instance = (case found of Inl err \<Rightarrow> None | Inr i \<Rightarrow> i)
               in (case getIPsFromInstance w instance of
                     Panic p \<Rightarrow> (Panic p, lg1)
                   | Return (Inl err) \<Rightarrow> (Return (Some err, machine1), lg1)
                   | Return (Inr mapAddr) \<Rightarrow>
                       (case getPrimaryMachineIP w mapAddr machine1 clusterInfraName lg1 of
                          (Inl err, lg2) \<Rightarrow> (Return (Some err, machine1), lg2)
                        | (Inr primaryIP, lg2) \<Rightarrow>
                            (case instance of
                               None \<Rightarrow> (Panic nil_dereference, lg2)
                             | Some i \<Rightarrow>
                                 (let machine2 = machine1\<lparr>ObjectMeta := (ObjectMeta machine1)
                                        \<lparr>Annotations :=
                                           store (store (Annotations (ObjectMeta machine1))
                                                    (OpenstackIPAnnotationKey w) primaryIP)
                                                 MachineInstanceStateAnnotationName
                                                 (Instance_Status i)\<rparr>\<rparr>
                                  in if \<not> client_present w then (Panic nil_dereference, lg2)
                                     else
                                       (case ext (ans_client_Update w lg2 machine2)
                                                 (C_client_Update TODO machine2) lg2 of
                                          (Inl err, lg3) \<Rightarrow> (Return (Some err, machine2), lg3)
                                        | (Inr machine3, lg3) \<Rightarrow>
                                            (let networkAddresses =
                                                   [\<lparr>Type = NodeInternalIP, Address = primaryIP\<rparr>,
                                                    \<lparr>Type = NodeHostName,
                                                     Address = Name (ObjectMeta machine3)\<rparr>,
                                                    \<lparr>Type = NodeInternalDNS,
                                                     Address = Name (ObjectMeta machine3)\<rparr>];
                                                 machineCopy = machine3\<lparr>Status := (Status machine3)
                                                     \<lparr>Addresses := networkAddresses\<rparr>\<rparr>
                                             in (case (if Addresses (Status machine3) \<noteq> networkAddresses
                                                       then (case ext (ans_client_Status_Update w lg3 machineCopy)
                                                                      (C_client_Status_Update TODO machineCopy) lg3 of
                                                               (Inl err, lg4) \<Rightarrow> (Some err, lg4)
                                                             | (Inr stored, lg4) \<Rightarrow> (None, lg4))
                                                       else (None, lg3)) of
                                                   (Some err, lg4) \<Rightarrow> (Return (Some err, machine3), lg4)
                                                 | (None, lg4) \<Rightarrow>
                                                     (let machine4 = machine3\<lparr>Status := statusCopy\<rparr>
                                                      in (case ext (ans_updateInstanceStatus w lg4 machine4)
                                                                   (C_updateInstanceStatus machine4) lg4 of
                                                            ((err, machine5), lg5) \<Rightarrow>
                                                              (Return (err, machine5), lg5)))))))))))))"

subsection \<open>The bootstrap token and the user data\<close>

definition BootstrapTokenIDKey :: string where "BootstrapTokenIDKey = ''token-id''"
definition BootstrapTokenSecretKey :: string where "BootstrapTokenSecretKey = ''token-secret''"

definition TokenFromIDAndSecret :: "string \<Rightarrow> string \<Rightarrow> string" where
  "TokenFromIDAndSecret tokenID secret = tokenID @ ''.'' @ secret"

definition createBootstrapToken :: "world \<Rightarrow> call list \<Rightarrow> (error + string) outcome \<times> call list" where
  "createBootstrapToken w lg =
     (case ext (ans_GenerateBootstrapToken w lg) C_GenerateBootstrapToken lg of
        (Inl err, lg1) \<Rightarrow> (Return (Inl err), lg1)
      | (Inr token, lg1) \<Rightarrow>
          (case ext (ans_time_Now w lg1) C_time_Now lg1 of
             (now, lg2) \<Rightarrow>
               (let expiration = now + TokenTTL w
                in (case GenerateTokenSecret w token expiration of
                      Inl err \<Rightarrow>
                        (Panic (''unable to create token. there might be a bug somwhere: ''
                                 @ Error err), lg2)
                    | Inr tokenSecret \<Rightarrow>
                        if \<not> client_present w then (Panic nil_dereference, lg2)
                        else
                          (case ext (ans_client_Create w lg2 tokenSecret)
                                    (C_client_Create TODO tokenSecret) lg2 of
                             (Inl err, lg3) \<Rightarrow> (Return (Inl err), lg3)
                           | (Inr stored, lg3) \<Rightarrow>
                               (Return (Inr (TokenFromIDAndSecret
                                               (index (Data stored) BootstrapTokenIDKey)
                                               (index (Data stored) BootstrapTokenSecretKey))),
                                lg3))))))"

text \<open>
  \<^verbatim>\<open>getUserData(machine, providerSpec, kubeClient)\<close>, written as its three steps in
  the order of the source. \<open>getUserData_secret\<close> reads the secret: the payload,
  whether templating is disabled, the name of the postprocessor and whether there is
  one. \<open>getUserData_render\<close> renders the payload, and returns the machine as well,
  which \<^verbatim>\<open>handleMachineError\<close> writes. \<open>getUserData_postprocess\<close> is the
  \<^verbatim>\<open>switch\<close> on the postprocessor.
\<close>

definition getUserData_secret ::
  "world \<Rightarrow> Machine \<Rightarrow> OpenstackProviderSpec \<Rightarrow> call list
     \<Rightarrow> (error + string \<times> bool \<times> string \<times> bool) \<times> call list" where
  "getUserData_secret w machine providerSpec lg =
     (case UserDataSecret providerSpec of
        None \<Rightarrow> (Inr ([], False, [], False), lg)
      | Some secretRef \<Rightarrow>
          (let namespace = (if SecretNamespace secretRef = [] then Namespace (ObjectMeta machine)
                            else SecretNamespace secretRef)
           in if SecretName secretRef = []
              then (Inl (Errorf ''UserDataSecret name must be provided''), lg)
              else
                (case ext (ans_Secrets_Get w lg namespace (SecretName secretRef))
                          (C_Secrets_Get TODO namespace (SecretName secretRef)) lg of
                   (Inl err, lg1) \<Rightarrow> (Inl err, lg1)
                 | (Inr userDataSecret, lg1) \<Rightarrow>
                     if \<not> has_key (Data userDataSecret) UserDataKey
                     then (Inl (Errorf (''Machine's userdata secret '' @ SecretName secretRef
                                         @ '' in namespace '' @ namespace
                                         @ '' did not contain key '' @ UserDataKey)), lg1)
                     else (Inr (index (Data userDataSecret) UserDataKey,
                                has_key (Data userDataSecret) DisableTemplatingKey,
                                index (Data userDataSecret) PostprocessorKey,
                                has_key (Data userDataSecret) PostprocessorKey), lg1))))"

definition getUserData_render ::
  "world \<Rightarrow> Machine \<Rightarrow> string \<Rightarrow> bool \<Rightarrow> call list
     \<Rightarrow> ((error + string) \<times> Machine) outcome \<times> call list" where
  "getUserData_render w machine userData disableTemplating lg =
     (if length userData > 0 \<and> \<not> disableTemplating then
        (if Name (ObjectMeta machine) \<noteq> [] then
           (case ext (ans_masterStartupScript w lg machine userData)
                     (C_masterStartupScript machine userData) lg of
              (Inl err, lg1) \<Rightarrow>
                (case handleMachineError w machine
                        (CreateMachine (''error creating Openstack instance: '' @ Error err))
                        createEventAction lg1 of
                   (e, machine', lg2) \<Rightarrow> (Return (Inl e, machine'), lg2))
            | (Inr rendered, lg1) \<Rightarrow> (Return (Inr rendered, machine), lg1))
         else
           (case createBootstrapToken w lg of
              (Panic p, lg1) \<Rightarrow> (Panic p, lg1)
            | (Return (Inl err), lg1) \<Rightarrow>
                (case handleMachineError w machine
                        (CreateMachine (''error creating Openstack instance: '' @ Error err))
                        createEventAction lg1 of
                   (e, machine', lg2) \<Rightarrow> (Return (Inl e, machine'), lg2))
            | (Return (Inr token), lg1) \<Rightarrow>
                (case ext (ans_nodeStartupScript w lg1 machine token userData)
                          (C_nodeStartupScript machine token userData) lg1 of
                   (Inl err, lg2) \<Rightarrow>
                     (case handleMachineError w machine
                             (CreateMachine (''error creating Openstack instance: '' @ Error err))
                             createEventAction lg2 of
                        (e, machine', lg3) \<Rightarrow> (Return (Inl e, machine'), lg3))
                 | (Inr rendered, lg2) \<Rightarrow> (Return (Inr rendered, machine), lg2))))
      else (Return (Inr userData, machine), lg))"

definition getUserData_postprocess :: "world \<Rightarrow> string \<Rightarrow> bool \<Rightarrow> string \<Rightarrow> error + string" where
  "getUserData_postprocess w userDataRendered postprocess postprocessor =
     (if postprocess then
        (if postprocessor = ''ct'' then
           (case clconfig_Parse w userDataRendered of
              (clcfg, ast, report) \<Rightarrow>
                if length report > 0
                then Inl (Errorf (''Postprocessor error: '' @ report_String w report))
                else
                  (case clconfig_Convert w clcfg ''openstack-metadata'' ast of
                     (ignCfg, report2) \<Rightarrow>
                       if length report2 > 0
                       then Inl (Errorf (''Postprocessor error: '' @ report_String w report2))
                       else
                         (case json_Marshal w ignCfg of
                            Inl err \<Rightarrow> Inl (Errorf (''Postprocessor error: '' @ Error err))
                          | Inr ud \<Rightarrow> Inr ud)))
         else Inl (Errorf (''Postprocessor error: unknown postprocessor: ''
                            @ quote @ postprocessor @ quote)))
      else Inr userDataRendered)"

definition getUserData ::
  "world \<Rightarrow> Machine \<Rightarrow> OpenstackProviderSpec \<Rightarrow> call list
     \<Rightarrow> ((error + string) \<times> Machine) outcome \<times> call list" where
  "getUserData w machine providerSpec lg =
     (case getUserData_secret w machine providerSpec lg of
        (Inl err, lg1) \<Rightarrow> (Return (Inl err, machine), lg1)
      | (Inr (userData, disableTemplating, postprocessor, postprocess), lg1) \<Rightarrow>
          (case getUserData_render w machine userData disableTemplating lg1 of
             (Panic p, lg2) \<Rightarrow> (Panic p, lg2)
           | (Return (Inl err, machine'), lg2) \<Rightarrow> (Return (Inl err, machine'), lg2)
           | (Return (Inr userDataRendered, machine'), lg2) \<Rightarrow>
               (Return (getUserData_postprocess w userDataRendered postprocess postprocessor,
                        machine'), lg2)))"

definition setMachineLabels :: "world \<Rightarrow> Machine \<Rightarrow> string \<Rightarrow> string \<Rightarrow> string \<Rightarrow> Machine" where
  "setMachineLabels w machine region availability_zone flavor =
     (if index (Labels (ObjectMeta machine)) (MachineRegionLabelName w) \<noteq> []
         \<and> index (Labels (ObjectMeta machine)) (MachineAZLabelName w) \<noteq> []
         \<and> index (Labels (ObjectMeta machine)) (MachineInstanceTypeLabelName w) \<noteq> []
      then machine
      else machine\<lparr>ObjectMeta := (ObjectMeta machine)
             \<lparr>Labels := store (store (store (make_if_nil (Labels (ObjectMeta machine)))
                                    (MachineRegionLabelName w) region)
                                  (MachineAZLabelName w) availability_zone)
                           (MachineInstanceTypeLabelName w) flavor\<rparr>\<rparr>)"

subsection \<open>Create\<close>

definition cluster_label :: string where
  "cluster_label = ''machine.openshift.io/cluster-api-cluster''"

text \<open>
  The block of \<^verbatim>\<open>Create\<close> under \<^verbatim>\<open>if providerSpec.FloatingIP != ""\<close>: the
  machine error that \<^verbatim>\<open>Create\<close> hands to \<^verbatim>\<open>handleMachineError\<close>, or none.
\<close>

definition Create_floatingIP ::
  "world \<Rightarrow> OpenstackProviderSpec \<Rightarrow> NetworkService \<Rightarrow> ComputeService \<Rightarrow> string
     \<Rightarrow> InstanceStatus \<Rightarrow> call list \<Rightarrow> MachineErr option \<times> call list" where
  "Create_floatingIP w providerSpec networkService computeService clusterName instanceStatus lg =
     (if FloatingIP providerSpec \<noteq> [] then
        (case ext (ans_GetOrCreateFloatingIP w lg networkService clusterName
                     (FloatingIP providerSpec))
                  (C_GetOrCreateFloatingIP networkService clusterName
                     (FloatingIP providerSpec)) lg of
           (Inl err, lg1) \<Rightarrow>
             (Some (CreateMachine (''Get floatingIP err: '' @ Error err)), lg1)
         | (Inr fp, lg1) \<Rightarrow>
             (case ext (ans_GetManagementPort w lg1 computeService instanceStatus)
                       (C_GetManagementPort computeService instanceStatus) lg1 of
                (Inl err, lg2) \<Rightarrow>
                  (Some (CreateMachine (''Get management port err: '' @ Error err)), lg2)
              | (Inr port, lg2) \<Rightarrow>
                  (case ext (ans_AssociateFloatingIP w lg2 networkService fp port)
                            (C_AssociateFloatingIP networkService fp port) lg2 of
                     (Some err, lg3) \<Rightarrow>
                       (Some (CreateMachine (''Associate floatingIP err: '' @ Error err)), lg3)
                   | (None, lg3) \<Rightarrow> (None, lg3))))
      else (None, lg))"

text \<open>
  \<^verbatim>\<open>Create(ctx, machine)\<close>: what it returns (\<open>None\<close> is the nil error) with the machine
  as it leaves it, or its panic, and the history.
\<close>

definition Create ::
  "world \<Rightarrow> Context \<Rightarrow> Machine \<Rightarrow> call list \<Rightarrow> (error option \<times> Machine) outcome \<times> call list" where
  "Create w ctx machine lg =
     (case ext (ans_Infrastructures_Get w lg ''cluster'') (C_Infrastructures_Get TODO ''cluster'') lg of
        (Inl err, lg1) \<Rightarrow>
          (Return (Some (Errorf (''Failed to retrieve cluster Infrastructure object: '' @ Error err)),
                   machine), lg1)
      | (Inr clusterInfraName, lg1) \<Rightarrow>
     (let clusterNameLabel = index (Labels (ObjectMeta machine)) cluster_label
      in if clusterNameLabel \<noteq> clusterInfraName then
           (case handleMachineError w machine
                   (InvalidMachineConfiguration
                      (''machine.openshift.io/cluster-api-cluster label value is incorrect: ''
                       @ clusterNameLabel @ '', machine '' @ Name (ObjectMeta machine)
                       @ '' cannot join cluster '' @ clusterInfraName))
                   createEventAction lg1 of
              (e, machine', lg2) \<Rightarrow> (Return (Some e, machine'), lg2))
         else
     (case getProviderClient w machine lg1 of
        (Inl err, lg2) \<Rightarrow> (Return (Some err, machine), lg2)
      | (Inr (provider, cloud), lg2) \<Rightarrow>
     (let clientOpts = \<lparr>Opts_AuthInfo = AuthInfo cloud, Opts_RegionName = RegionName cloud\<rparr>
      in
     (case ext (ans_compute_NewService w lg2 provider clientOpts)
               (C_compute_NewService provider clientOpts) lg2 of
        (Inl err, lg3) \<Rightarrow> (Return (Some err, machine), lg3)
      | (Inr computeService, lg3) \<Rightarrow>
     (case ext (ans_networking_NewService w lg3 provider clientOpts)
               (C_networking_NewService provider clientOpts) lg3 of
        (Inl err, lg4) \<Rightarrow> (Return (Some err, machine), lg4)
      | (Inr networkService, lg4) \<Rightarrow>
     (case MachineSpecFromProviderSpec w (ProviderSpec (Spec machine)) of
        Inl err \<Rightarrow>
          (case handleMachineError w machine
                  (InvalidMachineConfiguration (''Cannot unmarshal providerSpec field: '' @ Error err))
                  createEventAction lg4 of
             (e, machine', lg5) \<Rightarrow> (Return (Some e, machine'), lg5))
      | Inr providerSpec \<Rightarrow>
     (case validateMachine w machine lg4 of
        (Some err, lg5) \<Rightarrow>
          (case handleMachineError w machine
                  (InvalidMachineConfiguration (''Machine validation failed: '' @ Error err))
                  createEventAction lg5 of
             (e, machine', lg6) \<Rightarrow> (Return (Some e, machine'), lg6))
      | (None, lg5) \<Rightarrow>
     (case ext (ans_GetInstanceStatusByName w lg5 computeService machine (Name (ObjectMeta machine)))
               (C_GetInstanceStatusByName computeService machine (Name (ObjectMeta machine))) lg5 of
        (Inl err, lg6) \<Rightarrow> (Return (Some err, machine), lg6)
      | (Inr (Some existing), lg6) \<Rightarrow> (Return (None, machine), lg6)
      | (Inr None, lg6) \<Rightarrow>
     (if index (Annotations (ObjectMeta machine)) (InstanceStatusAnnotationKey w) \<noteq> [] then
        (case handleMachineError w machine
                (InvalidMachineConfiguration
                   (''the instance has been destroyed for the machine ''
                    @ Name (ObjectMeta machine) @ '', cannot recreate it.'' @ newline))
                createEventAction lg6 of
           (e, machine', lg7) \<Rightarrow> (Return (Some e, machine'), lg7))
      else
     (case getUserData w machine providerSpec lg6 of
        (Panic p, lg7) \<Rightarrow> (Panic p, lg7)
      | (Return (Inl err, machine1), lg7) \<Rightarrow> (Return (Some err, machine1), lg7)
      | (Return (Inr userDataRendered, machine1), lg7) \<Rightarrow>
     (let clusterName = Namespace (ObjectMeta machine1) @ ''-''
                          @ index (Labels (ObjectMeta machine1)) cluster_label
      in
     (case NewOpenStackMachine w machine1 of
        Inl err \<Rightarrow> (Return (Some err, machine1), lg7)
      | Inr osMachine \<Rightarrow>
     (case ext (ans_CreateInstance w lg7 computeService (AvailabilityZone providerSpec) osMachine
                  clusterName userDataRendered)
               (C_CreateInstance computeService (AvailabilityZone providerSpec) osMachine
                  clusterName userDataRendered) lg7 of
        (Inl err, lg8) \<Rightarrow>
          (case handleMachineError w machine1
                  (CreateMachine (''error creating Openstack instance: '' @ Error err))
                  createEventAction lg8 of
             (e, machine', lg9) \<Rightarrow> (Return (Some e, machine'), lg9))
      | (Inr instanceStatus, lg8) \<Rightarrow>
     (case Create_floatingIP w providerSpec networkService computeService clusterName
             instanceStatus lg8 of
        (Some merr, lg9) \<Rightarrow>
          (case handleMachineError w machine1 merr createEventAction lg9 of
             (e, machine', lg10) \<Rightarrow> (Return (Some e, machine'), lg10))
      | (None, lg9) \<Rightarrow>
     (let lg10 = lg9 @ [C_Eventf machine1 EventTypeNormal ''Created''
                          (''Created machine '' @ Name (ObjectMeta machine1))];
          machine2 = setMachineLabels w machine1 (RegionName cloud)
                       (InstanceStatus_AvailabilityZone instanceStatus) (Flavor providerSpec)
      in updateAnnotation w machine2 (InstanceStatus_ID instanceStatus) clusterInfraName
           lg10))))))))))))))))"

subsection \<open>Delete and Exists\<close>

text \<open>
  \<^verbatim>\<open>Delete(ctx, machine)\<close>: the error it returns (\<open>None\<close> is nil), the machine as it
  leaves it, and the history.
\<close>

definition Delete ::
  "world \<Rightarrow> Context \<Rightarrow> Machine \<Rightarrow> call list \<Rightarrow> error option \<times> Machine \<times> call list" where
  "Delete w ctx machine lg =
     (case getProviderClient w machine lg of
        (Inl err, lg1) \<Rightarrow> (Some err, machine, lg1)
      | (Inr (provider, cloud), lg1) \<Rightarrow>
          (let opts = \<lparr>Opts_AuthInfo = AuthInfo cloud, Opts_RegionName = RegionName cloud\<rparr>
           in (case ext (ans_compute_NewService w lg1 provider opts)
                        (C_compute_NewService provider opts) lg1 of
                 (Inl err, lg2) \<Rightarrow> (Some err, machine, lg2)
               | (Inr computeService, lg2) \<Rightarrow>
                   (case ext (ans_GetInstanceStatusByName w lg2 computeService machine
                                (Name (ObjectMeta machine)))
                             (C_GetInstanceStatusByName computeService machine
                                (Name (ObjectMeta machine))) lg2 of
                      (Inl err, lg3) \<Rightarrow>
                        (case handleMachineError w machine
                                (DeleteMachine (''error getting OpenStack instance: '' @ Error err))
                                deleteEventAction lg3 of
                           (e, machine', lg4) \<Rightarrow> (Some e, machine', lg4))
                    | (Inr None, lg3) \<Rightarrow> (None, machine, lg3)
                    | (Inr (Some instanceStatus), lg3) \<Rightarrow>
                        (case ext (ans_DeleteInstance w lg3 computeService instanceStatus)
                                  (C_DeleteInstance computeService instanceStatus) lg3 of
                           (Some err, lg4) \<Rightarrow>
                             (case handleMachineError w machine
                                     (DeleteMachine (''error deleting Openstack instance: ''
                                        @ Error err))
                                     deleteEventAction lg4 of
                                (e, machine', lg5) \<Rightarrow> (Some e, machine', lg5))
                         | (None, lg4) \<Rightarrow>
                             (None, machine,
                              lg4 @ [C_Eventf machine EventTypeNormal ''Deleted''
                                       (''Deleted machine '' @ Name (ObjectMeta machine))]))))))"

definition Exists ::
  "world \<Rightarrow> Context \<Rightarrow> Machine \<Rightarrow> call list \<Rightarrow> (error + bool) \<times> call list" where
  "Exists w ctx machine lg =
     (case instanceExists w machine lg of
        (Inl err, lg1) \<Rightarrow>
          (Inl (Errorf (''Error checking if instance exists (machine/actuator.go 346): ''
                         @ Error err)), lg1)
      | (Inr instance, lg1) \<Rightarrow> (Inr (instance \<noteq> None), lg1))"

subsection \<open>Update\<close>

text \<open>
  \<^verbatim>\<open>util.PollImmediate(interval, timeout, condition)\<close> with the condition of
  \<^verbatim>\<open>Update\<close>, which looks the instance up and is true when there is none (a lookup
  error counts as not yet). The poll evaluates the condition at once and then again
  until the timeout fires, which is after \<open>ans_PollImmediate\<close> more times; it then
  fails with the error of the wait package.
\<close>

definition ErrWaitTimeout :: error where
  "ErrWaitTimeout = Errorf ''timed out waiting for the condition''"

fun poll_loop :: "world \<Rightarrow> Machine \<Rightarrow> nat \<Rightarrow> call list \<Rightarrow> error option \<times> call list" where
  "poll_loop w machine 0 lg = (Some ErrWaitTimeout, lg)"
| "poll_loop w machine (Suc n) lg =
     (case instanceExists w machine lg of
        (Inl err, lg1) \<Rightarrow> poll_loop w machine n lg1
      | (Inr (Some instance), lg1) \<Rightarrow> poll_loop w machine n lg1
      | (Inr None, lg1) \<Rightarrow> (None, lg1))"

definition PollImmediate ::
  "world \<Rightarrow> Machine \<Rightarrow> Duration \<Rightarrow> Duration \<Rightarrow> call list \<Rightarrow> error option \<times> call list" where
  "PollImmediate w machine interval timeout lg =
     poll_loop w machine (Suc (ans_PollImmediate w lg interval timeout))
       (lg @ [C_PollImmediate interval timeout])"

definition master_label :: string where
  "master_label = ''node-role.kubernetes.io/master''"

text \<open>
  \<^verbatim>\<open>Update(ctx, machine)\<close>. \<^verbatim>\<open>oc.instanceStatus\<close> is declared in another file of
  the package: \<open>ans_instanceStatus\<close> answers for it.
\<close>

definition Update ::
  "world \<Rightarrow> Context \<Rightarrow> Machine \<Rightarrow> call list \<Rightarrow> (error option \<times> Machine) outcome \<times> call list" where
  "Update w ctx machine lg =
     (case validateMachine w machine lg of
        (Some err, lg1) \<Rightarrow>
          (case handleMachineError w machine (UpdateMachineError, Error err) updateEventAction lg1 of
             (e, machine', lg2) \<Rightarrow> (Return (Some e, machine'), lg2))
      | (None, lg1) \<Rightarrow>
     (case ext (ans_Infrastructures_Get w lg1 ''cluster'') (C_Infrastructures_Get TODO ''cluster'') lg1 of
        (Inl err, lg2) \<Rightarrow>
          (Return (Some (Errorf (''Failed to retrieve cluster Infrastructure object: '' @ Error err)),
                   machine), lg2)
      | (Inr clusterInfraName, lg2) \<Rightarrow>
     (case ext (ans_instanceStatus w lg2 machine) (C_instanceStatus machine) lg2 of
        (Inl err, lg3) \<Rightarrow> (Return (Some err, machine), lg3)
      | (Inr None, lg3) \<Rightarrow>
          (case instanceExists w machine lg3 of
             (Inl err, lg4) \<Rightarrow> (Return (Some err, machine), lg4)
           | (Inr instance, lg4) \<Rightarrow>
               (case (case instance of None \<Rightarrow> None
                      | Some i \<Rightarrow> if Instance_Status i = ''ACTIVE'' then Some i else None) of
                  Some i \<Rightarrow>
                    (case ext (ans_NewInstanceServiceFromMachine w lg4 machine)
                              (C_NewInstanceServiceFromMachine machine) lg4 of
                       (Inl err, lg5) \<Rightarrow> (Return (Some err, machine), lg5)
                     | (Inr machineService, lg5) \<Rightarrow>
                         (case ext (ans_SetMachineLabels w lg5 machineService machine (Instance_ID i))
                                   (C_SetMachineLabels machineService machine (Instance_ID i)) lg5 of
                            ((Some err, machine1), lg6) \<Rightarrow> (Return (None, machine1), lg6)
                          | ((None, machine1), lg6) \<Rightarrow>
                              updateAnnotation w machine1 (Instance_ID i) clusterInfraName lg6))
                | None \<Rightarrow>
                    (Return (Some (Errorf (''Cannot retrieve current state to update machine ''
                                            @ Name (ObjectMeta machine))), machine), lg4)))
      | (Inr (Some currentMachine), lg3) \<Rightarrow>
          if \<not> requiresUpdate (Some currentMachine) (Some machine) then (Return (None, machine), lg3)
          else if has_key (Labels (ObjectMeta currentMachine)) master_label then
            (case handleMachineError w machine
                    (UpdateMachine ''master inplace update failed: not supported'')
                    updateEventAction lg3 of
               (e, machine', lg4) \<Rightarrow> (Return (Some e, machine'), lg4))
          else
            (case Create w ctx machine lg3 of
               (Panic p, lg4) \<Rightarrow> (Panic p, lg4)
             | (Return (Some err, machine1), lg4) \<Rightarrow>
                 (Return (Some (Errorf (''Cannot create machine '' @ Name (ObjectMeta machine1)
                                         @ '': '' @ Error err)), machine1), lg4)
             | (Return (None, machine1), lg4) \<Rightarrow>
                 (case Delete w ctx currentMachine lg4 of
                    (Some err, current1, lg5) \<Rightarrow>
                      (Return (Some (Errorf (''Cannot delete machine '' @ Name (ObjectMeta current1)
                                              @ '': '' @ Error err)), machine1), lg5)
                  | (None, current1, lg5) \<Rightarrow>
                      (case PollImmediate w machine1 RetryIntervalInstanceStatus
                              (instanceDeleteTimeout (Getenv w)) lg5 of
                         (Some err, lg6) \<Rightarrow>
                           (case handleMachineError w machine1
                                   (DeleteMachine (''error deleting Openstack instance: '' @ Error err))
                                   updateEventAction lg6 of
                              (e, machine', lg7) \<Rightarrow> (Return (Some e, machine'), lg7))
                       | (None, lg6) \<Rightarrow>
                           (Return (None, machine1),
                            lg6 @ [C_Eventf current1 EventTypeNormal ''Updated''
                                     (''Updated machine '' @ Name (ObjectMeta current1))])))))))"

section \<open>Observing the calls\<close>

text \<open>
  \<open>added lg lg'\<close> is what a run that started at the history \<open>lg\<close> and ended at
  \<open>lg'\<close> has added, and \<open>adds P lg lg'\<close> says that \<open>lg'\<close> extends \<open>lg\<close> by calls
  that all satisfy \<open>P\<close>.
\<close>

definition added :: "call list \<Rightarrow> call list \<Rightarrow> call list" where
  "added lg lg' = drop (length lg) lg'"

definition adds :: "(call \<Rightarrow> bool) \<Rightarrow> call list \<Rightarrow> call list \<Rightarrow> bool" where
  "adds P lg lg' = (take (length lg) lg' = lg \<and> list_all P (drop (length lg) lg'))"

text \<open>
  The calls that resolve a client or a service, validate the spec or look an instance
  up by name: none of them creates or deletes an instance, reads or renders user data,
  records an event or writes the machine record.
\<close>

fun resolves_or_checks :: "call \<Rightarrow> bool" where
  "resolves_or_checks (C_Infrastructures_Get ctx name) = True"
| "resolves_or_checks (C_GetCloud m) = True"
| "resolves_or_checks C_GetCACertificate = True"
| "resolves_or_checks (C_GetProviderClient cloud cert) = True"
| "resolves_or_checks (C_compute_NewService p opts) = True"
| "resolves_or_checks (C_networking_NewService p opts) = True"
| "resolves_or_checks (C_NewInstanceServiceFromMachine m) = True"
| "resolves_or_checks (C_DoesImageExist s img) = True"
| "resolves_or_checks (C_DoesFlavorExist s flavor) = True"
| "resolves_or_checks (C_DoesAvailabilityZoneExist s az) = True"
| "resolves_or_checks (C_GetInstanceStatusByName s m name) = True"
| "resolves_or_checks c = False"

fun is_CreateInstance :: "call \<Rightarrow> bool" where
  "is_CreateInstance (C_CreateInstance s az osMachine clusterName userData) = True"
| "is_CreateInstance c = False"

fun is_status_update :: "call \<Rightarrow> bool" where
  "is_status_update (C_client_Status_Update ctx m) = True"
| "is_status_update c = False"



text \<open>
  The context a call is given, for the calls that take one, and \<open>receives ctx c\<close>:
  the call \<open>c\<close>, if it takes a context, is given \<open>ctx\<close>. \<open>polls_with\<close> says of a
  poll which interval and timeout it was started with.
\<close>

fun call_context :: "call \<Rightarrow> Context option" where
  "call_context (C_Infrastructures_Get ctx name) = Some ctx"
| "call_context (C_Secrets_Get ctx namespace name) = Some ctx"
| "call_context (C_client_Create ctx secret) = Some ctx"
| "call_context (C_client_Update ctx m) = Some ctx"
| "call_context (C_client_Status_Update ctx m) = Some ctx"
| "call_context c = None"

definition receives :: "Context \<Rightarrow> call \<Rightarrow> bool" where
  "receives ctx c = (case call_context c of None \<Rightarrow> True | Some x \<Rightarrow> x = ctx)"

fun polls_with :: "Duration \<Rightarrow> Duration \<Rightarrow> call \<Rightarrow> bool" where
  "polls_with interval timeout (C_PollImmediate i t) = (i = interval \<and> t = timeout)"
| "polls_with interval timeout c = True"

text \<open>
  What holds of every call the actuator makes, whichever function makes it: the
  invariant behind the properties of the contexts and of the poll.
\<close>

fun actuator_call :: "world \<Rightarrow> call \<Rightarrow> bool" where
  "actuator_call w (C_Infrastructures_Get ctx name) = (ctx = TODO)"
| "actuator_call w (C_Secrets_Get ctx namespace name) = (ctx = TODO)"
| "actuator_call w (C_client_Create ctx secret) = (ctx = TODO)"
| "actuator_call w (C_client_Update ctx m) = (ctx = TODO)"
| "actuator_call w (C_client_Status_Update ctx m) = (ctx = TODO)"
| "actuator_call w (C_PollImmediate interval timeout) =
     (interval = RetryIntervalInstanceStatus \<and> timeout = instanceDeleteTimeout (Getenv w))"
| "actuator_call w c = True"

text \<open>
  The last step of the primary-address resolution in the words of the specification:
  the selected network's name is looked up as a key of the address map, and a missing
  key is an error.
\<close>

definition select_address :: "addrmap \<Rightarrow> Machine \<Rightarrow> string \<Rightarrow> error + string" where
  "select_address mapAddr machine name =
     (case map_of mapAddr name of
        Some addr \<Rightarrow> Inr addr
      | None \<Rightarrow> Inl (Errorf (''No primary network was found for the machine ''
                              @ Name (ObjectMeta machine))))"

section \<open>Examples\<close>

subsection \<open>Worlds and machines\<close>

text \<open>
  The world in which every collaborator succeeds and finds nothing: no instance, no
  network, the empty secret. The examples below change the fields they need.
\<close>

definition quiet :: world where
  "quiet =
     \<lparr>client_present = True,
      Getenv = (\<lambda>name. []),
      InstanceStatusAnnotationKey = ''instance-status'',
      OpenstackIdAnnotationKey = ''openstack-resourceId'',
      OpenstackIPAnnotationKey = ''openstack-ip-address'',
      MachineRegionLabelName = ''machine.openshift.io/region'',
      MachineAZLabelName = ''machine.openshift.io/zone'',
      MachineInstanceTypeLabelName = ''machine.openshift.io/instance-type'',
      TokenTTL = 0,
      MachineSpecFromProviderSpec = (\<lambda>ps. Inr \<lparr>UserDataSecret = None, AvailabilityZone = ''nova'',
         FloatingIP = [], Flavor = ''m1.small'', Image = ''rhcos'', PrimarySubnet = [],
         RootVolume = None\<rparr>),
      NewOpenStackMachine = (\<lambda>m. Inr (Name (ObjectMeta m))),
      ParseIP = (\<lambda>s. False),
      GenerateTokenSecret = (\<lambda>token expiration.
         Inr \<lparr>Data = Some [BootstrapTokenIDKey \<mapsto> take 6 token,
                           BootstrapTokenSecretKey \<mapsto> drop 7 token]\<rparr>),
      clconfig_Parse = (\<lambda>s. (s, [], [])),
      clconfig_Convert = (\<lambda>cfg platform ast. (cfg, [])),
      report_String = concat,
      json_Marshal = Inr,
      ans_Infrastructures_Get = (\<lambda>lg name. Inr ''c1''),
      ans_GetCloud = (\<lambda>lg m. Inr \<lparr>AuthInfo = [], RegionName = ''r1''\<rparr>),
      ans_GetCACertificate = (\<lambda>lg. []),
      ans_GetProviderClient = (\<lambda>lg cloud cert. Inr 0),
      ans_compute_NewService = (\<lambda>lg provider opts. Inr 0),
      ans_networking_NewService = (\<lambda>lg provider opts. Inr 0),
      ans_NewNetworkV2 = (\<lambda>lg provider region. Inr 0),
      ans_NewInstanceServiceFromMachine = (\<lambda>lg m. Inr 0),
      ans_DoesImageExist = (\<lambda>lg s image. None),
      ans_DoesFlavorExist = (\<lambda>lg s flavor. None),
      ans_DoesAvailabilityZoneExist = (\<lambda>lg s az. None),
      ans_GetInstanceStatusByName = (\<lambda>lg s m name. Inr None),
      ans_GetInstanceList = (\<lambda>lg s opts. Inr []),
      ans_SetMachineLabels = (\<lambda>lg s m instanceID. (None, m)),
      ans_Secrets_Get = (\<lambda>lg namespace name. Inr \<lparr>Data = None\<rparr>),
      ans_masterStartupScript = (\<lambda>lg m userData. Inr userData),
      ans_nodeStartupScript = (\<lambda>lg m token userData. Inr (token @ userData)),
      ans_GenerateBootstrapToken = (\<lambda>lg. Inr ''abcdef.0123456789abcdef''),
      ans_time_Now = (\<lambda>lg. 0),
      ans_client_Create = (\<lambda>lg secret. Inr secret),
      ans_CreateInstance = (\<lambda>lg s az osMachine clusterName userData.
         Inr \<lparr>InstanceStatus_ID = ''id-1'', InstanceStatus_AvailabilityZone = az\<rparr>),
      ans_GetOrCreateFloatingIP = (\<lambda>lg s clusterName ip. Inr ip),
      ans_GetManagementPort = (\<lambda>lg s instanceStatus. Inr ''port-1''),
      ans_AssociateFloatingIP = (\<lambda>lg s fp port. None),
      ans_DeleteInstance = (\<lambda>lg s instanceStatus. None),
      ans_subnets_Get = (\<lambda>lg c subnetID. Inr \<lparr>Subnet_ID = subnetID, NetworkID = ''n1''\<rparr>),
      ans_networks_Get = (\<lambda>lg c networkID. Inr \<lparr>Network_ID = networkID, Network_Name = ''net-b''\<rparr>),
      ans_networks_List = (\<lambda>lg c tag. Inr []),
      ans_client_Update = (\<lambda>lg m. Inr m),
      ans_client_Status_Update = (\<lambda>lg m. Inr m),
      ans_updateInstanceStatus = (\<lambda>lg m. (None, m)),
      ans_instanceStatus = (\<lambda>lg m. Inr None),
      ans_PollImmediate = (\<lambda>lg interval timeout. 0)\<rparr>"

definition machine0 :: Machine where
  "machine0 =
     \<lparr>ObjectMeta = \<lparr>Name = ''worker-0'', GenerateName = [], Namespace = ''openshift-machine-api'',
         Labels = Some [cluster_label \<mapsto> ''c1''], Annotations = None, OwnerReferences = None\<rparr>,
      Spec = \<lparr>Spec_ObjectMeta = \<lparr>Name = [], GenerateName = [], Namespace = [], Labels = None,
                 Annotations = None, OwnerReferences = None\<rparr>,
              ProviderSpec = \<lparr>Value = Some (RawExtension (Some ''{}'') None)\<rparr>\<rparr>,
      Status = \<lparr>ErrorReason = None, ErrorMessage = None, Addresses = []\<rparr>\<rparr>"

text \<open>
  An environment with one variable; the instance of the examples, its status and its
  addresses; the provider spec that \<open>quiet\<close> decodes; and the calls by which
  \<^verbatim>\<open>Create\<close> gets to its lookup by name, and the resolver to its network client.
\<close>

definition setenv :: "string \<Rightarrow> string \<Rightarrow> string \<Rightarrow> string" where
  "setenv name v n = (if n = name then v else [])"

definition status1 :: InstanceStatus where
  "status1 = \<lparr>InstanceStatus_ID = ''id-1'', InstanceStatus_AvailabilityZone = ''nova''\<rparr>"

definition fixed4 :: networkInterface where
  "fixed4 = \<lparr>Addr = ''10.0.0.5'', Version = 4, OS_EXT_IPS_type = ''fixed''\<rparr>"

definition instance1 :: Instance where
  "instance1 = \<lparr>Instance_ID = ''id-1'', Instance_Status = ''ACTIVE'', AccessIPv4 = [],
                 Instance_Addresses = [(''net-a'', Inr [fixed4])]\<rparr>"

definition providerSpec0 :: OpenstackProviderSpec where
  "providerSpec0 = \<lparr>UserDataSecret = None, AvailabilityZone = ''nova'',
         FloatingIP = [], Flavor = ''m1.small'', Image = ''rhcos'', PrimarySubnet = [],
         RootVolume = None\<rparr>"

definition cloud1 :: Cloud where "cloud1 = \<lparr>AuthInfo = [], RegionName = ''r1''\<rparr>"
definition opts1 :: ClientOpts where "opts1 = \<lparr>Opts_AuthInfo = [], Opts_RegionName = ''r1''\<rparr>"
definition opts0 :: InstanceListOpts where
  "opts0 = \<lparr>Opts_Name = ''worker-0'', Opts_Image = ''rhcos'', Opts_Flavor = ''m1.small''\<rparr>"

definition reach_lookup :: "Machine \<Rightarrow> call list" where
  "reach_lookup m =
     [C_Infrastructures_Get TODO ''cluster'', C_GetCloud m, C_GetCACertificate,
      C_GetProviderClient cloud1 [], C_compute_NewService 0 opts1,
      C_networking_NewService 0 opts1, C_NewInstanceServiceFromMachine m,
      C_DoesImageExist 0 ''rhcos'', C_DoesFlavorExist 0 ''m1.small'',
      C_DoesAvailabilityZoneExist 0 ''nova'', C_GetInstanceStatusByName 0 m ''worker-0'']"

definition reach_network :: "call list" where
  "reach_network = [C_GetCloud machine0, C_GetCACertificate, C_GetProviderClient cloud1 [],
                    C_NewNetworkV2 0 ''r1'']"

text \<open>
  \<open>found\<close>: the lookup by name always finds the instance. \<open>remembering\<close>: the cloud
  holds the instance from the first \<^verbatim>\<open>CreateInstance\<close> on. \<open>conflict\<close>: every
  update of the machine record fails. \<open>listed\<close>: the instance service lists the
  instance. \<open>replacing\<close>: the observed machine has another provider spec, the
  instance is found by name, and the timeout is configured as ten minutes.
\<close>

definition found :: world where
  "found = quiet\<lparr>ans_GetInstanceStatusByName := (\<lambda>lg s m name. Inr (Some status1))\<rparr>"

definition remembering :: world where
  "remembering = quiet
     \<lparr>ans_GetInstanceStatusByName :=
        (\<lambda>lg s m name. if list_ex is_CreateInstance lg then Inr (Some status1) else Inr None),
      ans_GetInstanceList :=
        (\<lambda>lg s opts. if list_ex is_CreateInstance lg then Inr [instance1] else Inr [])\<rparr>"

definition conflict :: world where
  "conflict = quiet\<lparr>ans_client_Update := (\<lambda>lg m. Inl (Errorf ''conflict''))\<rparr>"

definition listed :: world where
  "listed = quiet\<lparr>ans_GetInstanceList := (\<lambda>lg s opts. Inr [instance1])\<rparr>"

definition replacing :: world where
  "replacing = found
     \<lparr>Getenv := setenv ''CLUSTER_API_OPENSTACK_INSTANCE_DELETE_TIMEOUT'' ''10'',
      ans_instanceStatus := (\<lambda>lg m. Inr (Some (m\<lparr>Spec := (Spec m)
         \<lparr>ProviderSpec := \<lparr>Value = None\<rparr>\<rparr>\<rparr>)))\<rparr>"

text \<open>
  The machine of the examples after a first \<^verbatim>\<open>Create\<close>; with the annotations of a
  recorded instance, its identifier and its status; and as \<^verbatim>\<open>handleMachineError\<close>
  marks that one.
\<close>

definition created0 :: Machine where
  "created0 = machine0\<lparr>ObjectMeta := (ObjectMeta machine0)
       \<lparr>Labels := Some [cluster_label \<mapsto> ''c1'',
                         ''machine.openshift.io/region'' \<mapsto> ''r1'',
                         ''machine.openshift.io/zone'' \<mapsto> ''nova'',
                         ''machine.openshift.io/instance-type'' \<mapsto> ''m1.small''],
        Annotations := Some [''openstack-resourceId'' \<mapsto> ''id-1'',
                              ''openstack-ip-address'' \<mapsto> ''10.0.0.5'',
                              MachineInstanceStateAnnotationName \<mapsto> ''ACTIVE'']\<rparr>\<rparr>"

definition destroyed0 :: Machine where
  "destroyed0 = machine0\<lparr>ObjectMeta := (ObjectMeta machine0)
       \<lparr>Annotations := Some [''openstack-resourceId'' \<mapsto> ''id-1'',
                              ''instance-status'' \<mapsto> ''{}'']\<rparr>\<rparr>"

definition destroyed_message :: string where
  "destroyed_message =
     ''the instance has been destroyed for the machine worker-0, cannot recreate it.'' @ newline"

definition marked0 :: Machine where
  "marked0 = destroyed0
     \<lparr>ObjectMeta := (ObjectMeta destroyed0)
        \<lparr>Annotations := Some [''openstack-resourceId'' \<mapsto> ''id-1'',
                               ''instance-status'' \<mapsto> ''{}'',
                               MachineInstanceStateAnnotationName \<mapsto> ErrorState]\<rparr>,
      Status := \<lparr>ErrorReason = Some InvalidConfigurationMachineError,
                 ErrorMessage = Some destroyed_message, Addresses = []\<rparr>\<rparr>"

definition failed_event :: call where
  "failed_event = C_Eventf destroyed0 EventTypeWarning ''FailedCreate'' ''InvalidConfiguration''"

text \<open>Two networks, a primary subnet on the second, a tag on the first.\<close>

definition net_a :: Network where "net_a = \<lparr>Network_ID = ''n0'', Network_Name = ''net-a''\<rparr>"
definition net_b :: Network where "net_b = \<lparr>Network_ID = ''n1'', Network_Name = ''net-b''\<rparr>"

definition two_networks :: addrmap where
  "two_networks = [(''net-a'', ''10.0.0.5''), (''net-b'', ''192.168.0.9'')]"

definition subnet_world :: world where
  "subnet_world = quiet\<lparr>MachineSpecFromProviderSpec :=
      (\<lambda>ps. Inr (providerSpec0\<lparr>PrimarySubnet := ''subnet-1''\<rparr>))\<rparr>"

definition tag_world :: world where
  "tag_world = quiet\<lparr>ans_networks_List :=
      (\<lambda>lg c tag. if tag = ''c1-primaryClusterNetwork'' then Inr [net_a] else Inr [])\<rparr>"

definition access_world :: world where
  "access_world = quiet\<lparr>ParseIP := (\<lambda>s. s = ''203.0.113.7'')\<rparr>"

text \<open>The machine while its annotations are recorded, and the addresses of its node.\<close>

definition annotated0 :: Machine where
  "annotated0 = machine0\<lparr>ObjectMeta := (ObjectMeta machine0)
       \<lparr>Annotations := Some [''openstack-resourceId'' \<mapsto> ''id-1'']\<rparr>\<rparr>"

definition recorded0 :: Machine where
  "recorded0 = machine0\<lparr>ObjectMeta := (ObjectMeta machine0)
       \<lparr>Annotations := Some [''openstack-resourceId'' \<mapsto> ''id-1'',
                              ''openstack-ip-address'' \<mapsto> ''10.0.0.5'',
                              MachineInstanceStateAnnotationName \<mapsto> ''ACTIVE'']\<rparr>\<rparr>"

definition addresses0 :: "NodeAddress list" where
  "addresses0 = [\<lparr>Type = NodeInternalIP, Address = ''10.0.0.5''\<rparr>,
                 \<lparr>Type = NodeHostName, Address = ''worker-0''\<rparr>,
                 \<lparr>Type = NodeInternalDNS, Address = ''worker-0''\<rparr>]"

definition with_addresses :: "Machine \<Rightarrow> Machine" where
  "with_addresses m = m\<lparr>Status := (Status m)\<lparr>Addresses := addresses0\<rparr>\<rparr>"

text \<open>A user-data secret with a payload and no flags, and a machine with no name.\<close>

definition secret_world :: world where
  "secret_world = quiet
     \<lparr>ans_Secrets_Get :=
        (\<lambda>lg namespace name. Inr \<lparr>Data = Some [UserDataKey \<mapsto> ''#cloud-config'']\<rparr>),
      ans_masterStartupScript :=
        (\<lambda>lg m userData. Inr (''master '' @ Name (ObjectMeta m) @ '' '' @ userData)),
      ans_nodeStartupScript :=
        (\<lambda>lg m token userData. Inr (''node '' @ token @ '' '' @ userData))\<rparr>"

definition secretRef0 :: SecretReference where
  "secretRef0 = \<lparr>SecretName = ''worker-user-data'', SecretNamespace = []\<rparr>"

definition nameless0 :: Machine where
  "nameless0 = machine0\<lparr>ObjectMeta := (ObjectMeta machine0)\<lparr>Name := []\<rparr>\<rparr>"


section \<open>Properties\<close>

subsection \<open>Histories\<close>

lemma adds_iff: "adds P lg lg' \<longleftrightarrow> (\<exists>new. lg' = lg @ new \<and> list_all P new)"
  unfolding adds_def by (metis append_eq_conv_conj)

lemma adds_refl: "adds P lg lg"
  by (simp add: adds_def)

lemma adds_app: "adds P lg (lg @ new) = list_all P new"
  by (simp add: adds_def)

lemma adds_append: "adds P lg0 lg \<Longrightarrow> list_all P new \<Longrightarrow> adds P lg0 (lg @ new)"
  unfolding adds_iff by auto

lemma adds_mono: "adds P lg lg' \<Longrightarrow> (\<And>c. P c \<Longrightarrow> Q c) \<Longrightarrow> adds Q lg lg'"
  unfolding adds_iff by (auto simp: list_all_iff)

lemma added_app [simp]: "added lg (lg @ new) = new"
  by (simp add: added_def)

lemma adds_added: "adds P lg lg' \<Longrightarrow> lg' = lg @ added lg lg'"
  unfolding adds_iff by auto

lemma adds_filter_none: "adds (\<lambda>c. \<not> Q c) lg lg' \<Longrightarrow> filter Q (added lg lg') = []"
  unfolding adds_iff by (auto simp: list_all_iff filter_empty_conv)

subsection \<open>The calls of each function\<close>

text \<open>
  Each function extends the history it is given, and only by calls of the kinds it
  makes: if \<open>P\<close> holds of each of them, the function keeps \<open>adds P\<close>.
\<close>

lemma handleMachineError_adds:
  assumes "adds P lg0 lg"
    and "\<And>x t rs msg. P (C_Eventf x t rs msg)" "\<And>x. P (C_client_Update TODO x)"
  shows "adds P lg0 (snd (snd (handleMachineError w m e a lg)))"
  using assms
  by (simp add: handleMachineError_def ext_def Let_def adds_append split: sum.splits)



lemma handleMachineError_error:
  assumes "handleMachineError w m err a lg = (e, m', lg')"
  shows "e = MachineError (fst err) (snd err)
         \<or> (client_present w
             \<and> (\<exists>uerr. e = Errorf (''unable to update machine status: '' @ Error uerr)))"
  using assms
  by (auto simp: handleMachineError_def ext_def Let_def split: if_splits sum.splits)

lemma getProviderClient_adds:
  assumes "adds P lg0 lg"
    and "P (C_GetCloud m)" "P C_GetCACertificate" "\<And>cloud cert. P (C_GetProviderClient cloud cert)"
  shows "adds P lg0 (snd (getProviderClient w m lg))"
  using assms
  by (simp add: getProviderClient_def ext_def adds_append split: sum.splits)

lemma validateMachine_adds:
  assumes "adds P lg0 lg"
    and "P (C_NewInstanceServiceFromMachine m)" "\<And>s x. P (C_DoesImageExist s x)"
      "\<And>s x. P (C_DoesFlavorExist s x)" "\<And>s x. P (C_DoesAvailabilityZoneExist s x)"
  shows "adds P lg0 (snd (validateMachine w m lg))"
  using assms
  by (simp add: validateMachine_def ext_def adds_append split: sum.splits option.splits)

lemma instanceExists_adds:
  assumes "adds P lg0 lg"
    and "P (C_NewInstanceServiceFromMachine m)" "\<And>s x. P (C_GetInstanceList s x)"
  shows "adds P lg0 (snd (instanceExists w m lg))"
  using assms
  by (simp add: instanceExists_def ext_def Let_def adds_append split: sum.splits list.splits)

lemma getNetworkBySubnet_adds:
  assumes "adds P lg0 lg"
    and "\<And>x y. P (C_subnets_Get x y)" "\<And>x y. P (C_networks_Get x y)"
  shows "adds P lg0 (snd (getNetworkBySubnet w c s lg))"
  using assms
  by (simp add: getNetworkBySubnet_def ext_def adds_append split: sum.splits)

lemma getNetworkByPrimaryNetworkTag_adds:
  assumes "adds P lg0 lg"
    and "\<And>x y. P (C_networks_List x y)"
  shows "adds P lg0 (snd (getNetworkByPrimaryNetworkTag w c s lg))"
  using assms
  by (simp add: getNetworkByPrimaryNetworkTag_def ext_def adds_append
        split: sum.splits list.splits)

lemma getPrimaryMachineIP_adds:
  assumes "adds P lg0 lg"
    and "P (C_GetCloud m)" "P C_GetCACertificate" "\<And>cloud cert. P (C_GetProviderClient cloud cert)"
    and "\<And>x y. P (C_NewNetworkV2 x y)"
    and "\<And>x y. P (C_subnets_Get x y)" "\<And>x y. P (C_networks_Get x y)"
      "\<And>x y. P (C_networks_List x y)"
  shows "adds P lg0 (snd (getPrimaryMachineIP w mapAddr m infra lg))"
  using assms
  by (simp add: getPrimaryMachineIP_def ext_def Let_def split_beta adds_append
        getProviderClient_adds getNetworkBySubnet_adds getNetworkByPrimaryNetworkTag_adds
        split: sum.splits option.splits)

lemma createBootstrapToken_adds:
  assumes "adds P lg0 lg"
    and "P C_GenerateBootstrapToken" "P C_time_Now" "\<And>x. P (C_client_Create TODO x)"
  shows "adds P lg0 (snd (createBootstrapToken w lg))"
  using assms
  by (simp add: createBootstrapToken_def ext_def Let_def adds_append split: sum.splits)


lemmas helper_adds = handleMachineError_adds getProviderClient_adds validateMachine_adds
  instanceExists_adds getPrimaryMachineIP_adds createBootstrapToken_adds

lemma getUserData_secret_actuator:
  assumes "adds (actuator_call w) lg0 lg"
  shows "adds (actuator_call w) lg0 (snd (getUserData_secret w m ps lg))"
  using assms
  by (simp add: getUserData_secret_def ext_def Let_def split_beta adds_append
        split: sum.splits option.splits)

lemma getUserData_render_actuator:
  assumes "adds (actuator_call w) lg0 lg"
  shows "adds (actuator_call w) lg0 (snd (getUserData_render w m u d lg))"
  using assms
  by (simp add: getUserData_render_def ext_def Let_def split_beta adds_append helper_adds
        split: sum.splits option.splits outcome.splits)

lemma getUserData_actuator:
  assumes "adds (actuator_call w) lg0 lg"
  shows "adds (actuator_call w) lg0 (snd (getUserData w m ps lg))"
  using assms
  by (simp add: getUserData_def split_beta getUserData_secret_actuator
        getUserData_render_actuator split: sum.splits option.splits outcome.splits)

lemma Create_floatingIP_actuator:
  assumes "adds (actuator_call w) lg0 lg"
  shows "adds (actuator_call w) lg0 (snd (Create_floatingIP w ps ns cs cn i lg))"
  using assms
  by (simp add: Create_floatingIP_def ext_def Let_def split_beta adds_append
        split: sum.splits option.splits)

lemma updateAnnotation_actuator:
  assumes "adds (actuator_call w) lg0 lg"
  shows "adds (actuator_call w) lg0 (snd (updateAnnotation w m i infra lg))"
  using assms
  by (simp add: updateAnnotation_def ext_def Let_def split_beta adds_append helper_adds
        split: sum.splits option.splits outcome.splits)

lemma Delete_actuator:
  assumes "adds (actuator_call w) lg0 lg"
  shows "adds (actuator_call w) lg0 (snd (snd (Delete w ctx m lg)))"
  using assms
  by (simp add: Delete_def ext_def Let_def split_beta adds_append helper_adds
        split: sum.splits option.splits outcome.splits)

lemma Exists_actuator:
  assumes "adds (actuator_call w) lg0 lg"
  shows "adds (actuator_call w) lg0 (snd (Exists w ctx m lg))"
  using assms
  by (simp add: Exists_def ext_def Let_def split_beta adds_append helper_adds
        split: sum.splits option.splits outcome.splits)

lemma Create_actuator:
  assumes "adds (actuator_call w) lg0 lg"
  shows "adds (actuator_call w) lg0 (snd (Create w ctx m lg))"
  using assms
  by (simp add: Create_def ext_def Let_def split_beta adds_append helper_adds
        getUserData_actuator updateAnnotation_actuator Create_floatingIP_actuator
        split: sum.splits option.splits outcome.splits)

lemma poll_loop_adds:
  assumes "adds P lg0 lg"
    and "P (C_NewInstanceServiceFromMachine m)" "\<And>s x. P (C_GetInstanceList s x)"
  shows "adds P lg0 (snd (poll_loop w m n lg))"
  using assms
proof (induction n arbitrary: lg)
  case 0
  then show ?case by simp
next
  case (Suc n)
  have step: "adds P lg0 (snd (instanceExists w m lg))"
    using Suc.prems by (simp add: instanceExists_adds)
  show ?case
    using Suc.IH[OF step Suc.prems(2,3)] step
    by (simp add: split_beta split: sum.splits option.splits)
qed

lemma PollImmediate_actuator:
  assumes "adds (actuator_call w) lg0 lg"
  shows "adds (actuator_call w) lg0
           (snd (PollImmediate w m RetryIntervalInstanceStatus
                   (instanceDeleteTimeout (Getenv w)) lg))"
  using assms
  by (simp add: PollImmediate_def poll_loop_adds adds_append del: poll_loop.simps)

lemma Update_actuator:
  assumes "adds (actuator_call w) lg0 lg"
  shows "adds (actuator_call w) lg0 (snd (Update w ctx m lg))"
  using assms
  by (simp add: Update_def ext_def Let_def split_beta adds_append helper_adds
        updateAnnotation_actuator Create_actuator Delete_actuator PollImmediate_actuator
        split: sum.splits option.splits outcome.splits)

lemma actuator_call_receives: "actuator_call w c \<Longrightarrow> receives TODO c"
  by (cases c) (simp_all add: receives_def)

lemma actuator_call_polls:
  "actuator_call w c \<Longrightarrow>
     polls_with RetryIntervalInstanceStatus (instanceDeleteTimeout (Getenv w)) c"
  by (cases c) simp_all

subsection \<open>Deep equality\<close>

text \<open>On the modelled values, \<^verbatim>\<open>reflect.DeepEqual\<close> holds exactly of equal values.\<close>

lemma DeepEqual_ptr_iff:
  assumes "\<And>x y. eq x y \<longleftrightarrow> x = y"
  shows "DeepEqual_ptr eq a b \<longleftrightarrow> a = b"
  by (cases a; cases b) (simp_all add: assms)

lemma DeepEqual_elems_iff:
  assumes "\<And>x y. eq x y \<longleftrightarrow> x = y"
  shows "DeepEqual_elems eq xs ys \<longleftrightarrow> xs = ys"
proof (induction xs arbitrary: ys)
  case Nil
  then show ?case by (cases ys) simp_all
next
  case (Cons x xs)
  then show ?case by (cases ys) (simp_all add: assms)
qed

lemma DeepEqual_slice_iff:
  assumes "\<And>x y. eq x y \<longleftrightarrow> x = y"
  shows "DeepEqual_slice eq a b \<longleftrightarrow> a = b"
  by (cases a; cases b) (auto simp add: DeepEqual_elems_iff[of eq, OF assms])

lemma DeepEqual_map_iff: "DeepEqual_map a b \<longleftrightarrow> a = b"
proof (cases a; cases b)
  fix f g assume ab: "a = Some f" "b = Some g"
  have "(dom f = dom g \<and> (\<forall>k \<in> dom f. f k = g k)) \<longleftrightarrow> f = g"
  proof
    assume h: "dom f = dom g \<and> (\<forall>k \<in> dom f. f k = g k)"
    show "f = g"
    proof
      fix k show "f k = g k"
      proof (cases "k \<in> dom f")
        case True with h show ?thesis by simp
      next
        case False
        with h have "f k = None" "g k = None" by (auto simp add: domIff)
        then show ?thesis by simp
      qed
    qed
  qed simp
  with ab show ?thesis by simp
qed simp_all

lemma DeepEqual_OwnerReference_iff: "DeepEqual_OwnerReference a b \<longleftrightarrow> a = b"
  by (cases a; cases b) (simp add: DeepEqual_OwnerReference_def DeepEqual_ptr_iff)

lemma DeepEqual_ObjectMeta_iff: "DeepEqual_ObjectMeta a b \<longleftrightarrow> a = b"
  by (cases a; cases b)
     (simp add: DeepEqual_ObjectMeta_def DeepEqual_map_iff
        DeepEqual_slice_iff[of DeepEqual_OwnerReference, OF DeepEqual_OwnerReference_iff])

lemma DeepEqual_Object_iff: "DeepEqual_Object a b \<longleftrightarrow> a = b"
  by (cases a; cases b) (simp add: DeepEqual_Object_def)

lemma DeepEqual_RawExtension_iff: "DeepEqual_RawExtension a b \<longleftrightarrow> a = b"
  by (cases a; cases b)
     (simp add: DeepEqual_RawExtension_def DeepEqual_slice_iff
        DeepEqual_ptr_iff[of DeepEqual_Object, OF DeepEqual_Object_iff])

lemma DeepEqual_ProviderSpec_iff: "DeepEqual_ProviderSpec a b \<longleftrightarrow> a = b"
  by (cases a; cases b)
     (simp add: DeepEqual_ProviderSpec_def
        DeepEqual_ptr_iff[of DeepEqual_RawExtension, OF DeepEqual_RawExtension_iff])

subsection \<open>Runs of the examples\<close>

lemmas ex_defs = quiet_def found_def conflict_def machine0_def destroyed0_def marked0_def
  destroyed_message_def cloud1_def opts1_def reach_lookup_def status1_def providerSpec0_def
  subnet_world_def net_a_def net_b_def tag_world_def two_networks_def reach_network_def
  listed_def annotated0_def recorded0_def addresses0_def with_addresses_def opts0_def
  instance1_def fixed4_def secret_world_def secretRef0_def nameless0_def

lemma first_create:
  "fst (Create remembering (WithCancel 1) machine0 []) = Return (None, created0)
   \<and> length (filter is_CreateInstance (snd (Create remembering (WithCancel 1) machine0 []))) = 1"
  by (simp add: Create_def getUserData_def getUserData_secret_def getUserData_render_def
        getUserData_postprocess_def Create_floatingIP_def setMachineLabels_def updateAnnotation_def
        instanceExists_def getIPsFromInstance_def getPrimaryMachineIP_def
        getProviderClient_def validateMachine_def ext_def ex_defs remembering_def created0_def
        cluster_label_def index_def Let_def store_def make_if_nil_def
        MachineInstanceStateAnnotationName_def NodeInternalIP_def NodeHostName_def
        NodeInternalDNS_def fun_upd_twist)

lemma update_run:
  "C_PollImmediate RetryIntervalInstanceStatus 600000000000
     \<in> set (snd (Update replacing (WithCancel 1) machine0 []))"
  by (simp add: Update_def Create_def Delete_def PollImmediate_def instanceExists_def
        getProviderClient_def validateMachine_def ext_def ex_defs replacing_def setenv_def
        cluster_label_def master_label_def index_def has_key_def Let_def requiresUpdate_def
        DeepEqual_ObjectMeta_iff DeepEqual_ProviderSpec_iff instanceDeleteTimeout_def getTimeout_def Minute_def Second_def
        TimeoutInstanceDelete_def RetryIntervalInstanceStatus_def Atoi_def is_digit_def
        digit_val_def)

lemma sint_minutes:
  assumes "- 153722867 \<le> n" "n \<le> 153722867"
  shows "sint (word_of_int n * (60000000000 :: 64 word)) = n * 60000000000"
proof -
  have eq: "word_of_int n * (60000000000 :: 64 word) = word_of_int (n * 60000000000)" by simp
  have lo: "- (2 ^ 63) \<le> n * 60000000000" using assms by simp
  have hi: "n * 60000000000 < 2 ^ 63" using assms by simp
  have "sint (word_of_int (n * 60000000000) :: 64 word) = signed_take_bit 63 (n * 60000000000)"
    unfolding sint_sbintrunc' by simp
  also have "\<dots> = n * 60000000000"
    using lo hi by (rule signed_take_bit_int_eq_self)
  finally show ?thesis unfolding eq .
qed

subsection \<open>Create on a machine whose instance was destroyed\<close>

text \<open>
  C1, as stated, fails, in both of its parts. The machine \<open>annotated0\<close> carries the
  identifier of a recorded instance, under \<^verbatim>\<open>OpenstackIdAnnotationKey\<close>, which is
  where \<^verbatim>\<open>updateAnnotation\<close> records it; the lookup by name finds no instance; and
  \<^verbatim>\<open>Create\<close> asks the compute service for a new instance and returns no error. What
  \<^verbatim>\<open>Create\<close> checks is another annotation, the one under
  \<^verbatim>\<open>InstanceStatusAnnotationKey\<close>. The machine \<open>destroyed0\<close> carries both
  annotations, the lookup by name finds no instance, and every update of the machine
  record fails: \<^verbatim>\<open>Create\<close> returns the plain error that \<^verbatim>\<open>handleMachineError\<close>
  makes of the failed update, not the validation error.
\<close>

theorem Create_destroyed_counterexample:
  "index (Annotations (ObjectMeta annotated0)) (OpenstackIdAnnotationKey remembering) = ''id-1''
   \<and> ans_GetInstanceStatusByName remembering (take 10 (reach_lookup annotated0)) 0 annotated0
        (Name (ObjectMeta annotated0)) = Inr None
   \<and> fst (Create remembering (WithCancel 1) annotated0 []) = Return (None, created0)
   \<and> length (filter is_CreateInstance (snd (Create remembering (WithCancel 1) annotated0 []))) = 1
   \<and> index (Annotations (ObjectMeta destroyed0)) (OpenstackIdAnnotationKey conflict) = ''id-1''
   \<and> index (Annotations (ObjectMeta destroyed0)) (InstanceStatusAnnotationKey conflict) = ''{}''
   \<and> ans_GetInstanceStatusByName conflict (take 10 (reach_lookup destroyed0)) 0 destroyed0
        (Name (ObjectMeta destroyed0)) = Inr None
   \<and> Create conflict (WithCancel 1) destroyed0 []
     = (Return (Some (Errorf ''unable to update machine status: conflict''), marked0),
        reach_lookup destroyed0 @ [failed_event, C_client_Update TODO marked0])"
  by (simp add: Create_def getUserData_def getUserData_secret_def getUserData_render_def
        getUserData_postprocess_def Create_floatingIP_def setMachineLabels_def updateAnnotation_def
        instanceExists_def getIPsFromInstance_def getPrimaryMachineIP_def
        getProviderClient_def validateMachine_def handleMachineError_def
        ext_def ex_defs remembering_def created0_def cluster_label_def index_def failed_event_def
        InvalidMachineConfiguration_def createEventAction_def noEventAction_def
        store_def make_if_nil_def MachineInstanceStateAnnotationName_def ErrorState_def
        NodeInternalIP_def NodeHostName_def NodeInternalDNS_def
        fun_upd_twist Let_def newline_def)

text \<open>
  C1, amended. Let \<^verbatim>\<open>Create\<close> get to its lookup by name (the cluster
  infrastructure is read and its name is the machine's cluster label, the provider
  client and the two services are built, the provider spec decodes, the validation
  passes), let the lookup find no instance, and let the machine carry a non-empty
  annotation under \<^verbatim>\<open>InstanceStatusAnnotationKey\<close>, the recorded status of an
  instance, which is the annotation \<^verbatim>\<open>Create\<close> checks (the identifier of the
  instance is not looked at). Then \<^verbatim>\<open>Create\<close> emits the warning event and fails,
  and what it returns is fixed by the update of the machine record: with no
  machine-record client, the validation error (reason \<^verbatim>\<open>InvalidConfiguration\<close>)
  and the machine as given; with a client whose update succeeds, the validation
  error and the stored machine; with a client whose update fails, the error
  "unable to update machine status" and the machine as marked. In every case no
  call of the run asks the compute service to create an instance.
\<close>

theorem Create_refuses_destroyed_instance:
  assumes "ans_Infrastructures_Get w lg ''cluster'' = Inr clusterInfraName"
    and "lg1 = lg @ [C_Infrastructures_Get TODO ''cluster'']"
    and "index (Labels (ObjectMeta machine)) cluster_label = clusterInfraName"
    and "getProviderClient w machine lg1 = (Inr (provider, cloud), lg2)"
    and "clientOpts = \<lparr>Opts_AuthInfo = AuthInfo cloud, Opts_RegionName = RegionName cloud\<rparr>"
    and "ans_compute_NewService w lg2 provider clientOpts = Inr computeService"
    and "lg3 = lg2 @ [C_compute_NewService provider clientOpts]"
    and "ans_networking_NewService w lg3 provider clientOpts = Inr networkService"
    and "lg4 = lg3 @ [C_networking_NewService provider clientOpts]"
    and "MachineSpecFromProviderSpec w (ProviderSpec (Spec machine)) = Inr providerSpec"
    and "validateMachine w machine lg4 = (None, lg5)"
    and "ans_GetInstanceStatusByName w lg5 computeService machine (Name (ObjectMeta machine))
           = Inr None"
    and "index (Annotations (ObjectMeta machine)) (InstanceStatusAnnotationKey w) \<noteq> []"
    and "msg = ''the instance has been destroyed for the machine ''
                 @ Name (ObjectMeta machine) @ '', cannot recreate it.'' @ newline"
    and "lg6 = lg5 @ [C_GetInstanceStatusByName computeService machine (Name (ObjectMeta machine)),
                      C_Eventf machine EventTypeWarning ''FailedCreate'' ''InvalidConfiguration'']"
    and "marked = machine
           \<lparr>Status := (Status machine)
              \<lparr>ErrorReason := Some InvalidConfigurationMachineError, ErrorMessage := Some msg\<rparr>,
            ObjectMeta := (ObjectMeta machine)
              \<lparr>Annotations := store (make_if_nil (Annotations (ObjectMeta machine)))
                                MachineInstanceStateAnnotationName ErrorState\<rparr>\<rparr>"
    and "verr = MachineError InvalidConfigurationMachineError msg"
  shows "Create w ctx machine lg =
           (if \<not> client_present w then (Return (Some verr, machine), lg6)
            else (case ans_client_Update w lg6 marked of
                    Inr stored \<Rightarrow> (Return (Some verr, stored), lg6 @ [C_client_Update TODO marked])
                  | Inl uerr \<Rightarrow>
                      (Return (Some (Errorf (''unable to update machine status: '' @ Error uerr)),
                               marked), lg6 @ [C_client_Update TODO marked])))
       \<and> adds (\<lambda>c. \<not> is_CreateInstance c) lg (snd (Create w ctx machine lg))"
proof -
  let ?P = "\<lambda>c. \<not> is_CreateInstance c"
  have a1: "adds ?P lg lg1"
    unfolding assms(2) by (simp add: adds_app)
  have a2: "adds ?P lg lg2"
    using getProviderClient_adds[OF a1, of machine w] assms(4) by simp
  have a4: "adds ?P lg lg4"
    unfolding assms(9) assms(7) using a2 by (simp add: adds_append)
  have a5: "adds ?P lg lg5"
    using validateMachine_adds[OF a4, of machine w] assms(11) by simp
  have a6: "adds ?P lg lg6"
    unfolding assms(15) using a5 by (simp add: adds_append)
  have r: "Create w ctx machine lg =
           (if \<not> client_present w then (Return (Some verr, machine), lg6)
            else (case ans_client_Update w lg6 marked of
                    Inr stored \<Rightarrow> (Return (Some verr, stored), lg6 @ [C_client_Update TODO marked])
                  | Inl uerr \<Rightarrow>
                      (Return (Some (Errorf (''unable to update machine status: '' @ Error uerr)),
                               marked), lg6 @ [C_client_Update TODO marked])))"
    using assms
    by (simp add: Create_def handleMachineError_def ext_def Let_def InvalidMachineConfiguration_def
          createEventAction_def noEventAction_def split: sum.splits)
  have "adds ?P lg (snd (Create w ctx machine lg))"
    unfolding r using a6 by (simp add: adds_append split: sum.splits)
  with r show ?thesis by simp
qed


theorem Create_refuses_destroyed_instance_witness:
  "Create quiet (WithCancel 1) destroyed0 []
     = (Return (Some (MachineError InvalidConfigurationMachineError destroyed_message), marked0),
        reach_lookup destroyed0 @ [failed_event, C_client_Update TODO marked0])
   \<and> adds (\<lambda>c. \<not> is_CreateInstance c) []
         (reach_lookup destroyed0 @ [failed_event, C_client_Update TODO marked0])"
  using Create_refuses_destroyed_instance
     [where w=quiet and lg="[]" and clusterInfraName="''c1''" and machine=destroyed0
      and ctx="WithCancel 1" and provider=0 and cloud=cloud1 and clientOpts=opts1
      and computeService=0 and networkService=0 and providerSpec=providerSpec0
      and ?lg1.0="take 1 (reach_lookup destroyed0)"
      and ?lg2.0="take 4 (reach_lookup destroyed0)"
      and ?lg3.0="take 5 (reach_lookup destroyed0)"
      and ?lg4.0="take 6 (reach_lookup destroyed0)"
      and ?lg5.0="take 10 (reach_lookup destroyed0)"
      and ?lg6.0="reach_lookup destroyed0 @ [failed_event]"
      and msg=destroyed_message
      and marked=marked0
      and verr="MachineError InvalidConfigurationMachineError destroyed_message"]
  by (auto simp add: getProviderClient_def validateMachine_def ext_def ex_defs
        cluster_label_def index_def failed_event_def
        store_def make_if_nil_def MachineInstanceStateAnnotationName_def ErrorState_def
        fun_upd_twist Let_def newline_def)

subsection \<open>The primary-address resolver\<close>

text \<open>
  C2. The resolver follows this order. A map with exactly one entry gives that
  entry's address, and no call is made. Otherwise, once the provider spec is decoded
  and the network client is built: if the spec sets a primary subnet, the subnet is
  fetched, then the network that owns it, and that network's name is the selector (no
  search by tag is made); if it sets none, the networks tagged
  \<open>clusterInfraName\<close>-primaryClusterNetwork are listed (no subnet is fetched), none or
  more than one is an error, and the name of the only one is the selector. Last, the
  selector is looked up in the address map, and a name that is absent is an error.
\<close>

theorem getPrimaryMachineIP_order:
  "(mapAddr = [(networkName, addr)]
      \<longrightarrow> getPrimaryMachineIP w mapAddr machine clusterInfraName lg = (Inr addr, lg))
   \<and> (length mapAddr \<noteq> 1
        \<and> MachineSpecFromProviderSpec w (ProviderSpec (Spec machine)) = Inr config
        \<and> getProviderClient w machine lg = (Inr (provider, cloud), lg1)
        \<and> ans_NewNetworkV2 w lg1 provider (RegionName cloud) = Inr netClient
        \<and> lg2 = lg1 @ [C_NewNetworkV2 provider (RegionName cloud)]
      \<longrightarrow>
        (PrimarySubnet config \<noteq> []
           \<and> ans_subnets_Get w lg2 netClient (PrimarySubnet config) = Inr subnet
           \<and> ans_networks_Get w (lg2 @ [C_subnets_Get netClient (PrimarySubnet config)])
                 netClient (NetworkID subnet) = Inr network
         \<longrightarrow> getPrimaryMachineIP w mapAddr machine clusterInfraName lg
               = (select_address mapAddr machine (Network_Name network),
                  lg2 @ [C_subnets_Get netClient (PrimarySubnet config),
                         C_networks_Get netClient (NetworkID subnet)]))
        \<and> (PrimarySubnet config = []
              \<and> ans_networks_List w lg2 netClient (clusterInfraName @ ''-primaryClusterNetwork'')
                    = Inr tagged
            \<longrightarrow> getPrimaryMachineIP w mapAddr machine clusterInfraName lg
                  = ((case tagged of
                        [] \<Rightarrow> Inl (Errorf (''There are no networks with primary network tag: ''
                                 @ clusterInfraName @ ''-primaryClusterNetwork''))
                      | [network] \<Rightarrow> select_address mapAddr machine (Network_Name network)
                      | network # other # others \<Rightarrow>
                          Inl (Errorf (''Too many networks with the same primary network tag: ''
                                 @ clusterInfraName @ ''-primaryClusterNetwork''))),
                     lg2 @ [C_networks_List netClient
                              (clusterInfraName @ ''-primaryClusterNetwork'')])))"
  by (auto simp: getPrimaryMachineIP_def getNetworkBySubnet_def getNetworkByPrimaryNetworkTag_def
        select_address_def ext_def Let_def split: option.splits list.splits)

theorem getPrimaryMachineIP_order_witness:
  "getPrimaryMachineIP quiet [(''net-a'', ''10.0.0.5'')] machine0 ''c1'' [] = (Inr ''10.0.0.5'', [])
   \<and> getPrimaryMachineIP subnet_world two_networks machine0 ''c1'' []
       = (Inr ''192.168.0.9'',
          reach_network @ [C_subnets_Get 0 ''subnet-1'', C_networks_Get 0 ''n1''])
   \<and> getPrimaryMachineIP tag_world two_networks machine0 ''c1'' []
       = (Inr ''10.0.0.5'', reach_network @ [C_networks_List 0 ''c1-primaryClusterNetwork''])
   \<and> getPrimaryMachineIP quiet two_networks machine0 ''c1'' []
       = (Inl (Errorf ''There are no networks with primary network tag: c1-primaryClusterNetwork''),
          reach_network @ [C_networks_List 0 ''c1-primaryClusterNetwork''])"
  using getPrimaryMachineIP_order
          [where w=quiet and mapAddr="[(''net-a'', ''10.0.0.5'')]" and networkName="''net-a''"
             and addr="''10.0.0.5''" and machine=machine0 and clusterInfraName="''c1''" and lg="[]"]
        getPrimaryMachineIP_order
          [where w=subnet_world and mapAddr=two_networks and machine=machine0
             and clusterInfraName="''c1''" and lg="[]"
             and config="providerSpec0\<lparr>PrimarySubnet := ''subnet-1''\<rparr>"
             and provider=0 and cloud=cloud1 and netClient=0
             and ?lg1.0="take 3 reach_network" and ?lg2.0=reach_network
             and subnet="\<lparr>Subnet_ID = ''subnet-1'', NetworkID = ''n1''\<rparr>" and network=net_b]
        getPrimaryMachineIP_order
          [where w=tag_world and mapAddr=two_networks and machine=machine0
             and clusterInfraName="''c1''" and lg="[]" and config=providerSpec0
             and provider=0 and cloud=cloud1 and netClient=0
             and ?lg1.0="take 3 reach_network" and ?lg2.0=reach_network and tagged="[net_a]"]
        getPrimaryMachineIP_order
          [where w=quiet and mapAddr=two_networks and machine=machine0
             and clusterInfraName="''c1''" and lg="[]" and config=providerSpec0
             and provider=0 and cloud=cloud1 and netClient=0
             and ?lg1.0="take 3 reach_network" and ?lg2.0=reach_network and tagged="[]"]
  by (simp add: getProviderClient_def ext_def ex_defs select_address_def)

subsection \<open>The update-diff evaluator\<close>

text \<open>
  C3. The update-diff evaluator requires recreation when either reference is absent;
  for two records that are present it requires recreation exactly when the metadata of
  their specs differ (\<^verbatim>\<open>machine.Spec.ObjectMeta\<close>, the metadata that is not status
  and that the evaluator compares; of the record's own metadata it compares the name),
  or their provider-spec payloads differ, or their names differ. To differ is not to
  be deeply equal: a nil map or slice differs from an empty one, and the payloads
  differ when their bytes or their decoded objects do. Two records that differ only in
  their status blocks (addresses, error reason and message) never require recreation.
\<close>

theorem requiresUpdate_exactly:
  "requiresUpdate None b \<and> requiresUpdate a None \<and>
   (requiresUpdate (Some x) (Some y) \<longleftrightarrow>
      Spec_ObjectMeta (Spec x) \<noteq> Spec_ObjectMeta (Spec y)
      \<or> ProviderSpec (Spec x) \<noteq> ProviderSpec (Spec y)
      \<or> Name (ObjectMeta x) \<noteq> Name (ObjectMeta y)) \<and>
   \<not> requiresUpdate (Some x) (Some (x\<lparr>Status := st\<rparr>))"
  by (simp add: requiresUpdate_def DeepEqual_ObjectMeta_iff DeepEqual_ProviderSpec_iff
        split: option.split)

theorem requiresUpdate_exactly_witness:
  "\<not> requiresUpdate (Some machine0)
       (Some (machine0\<lparr>Status := \<lparr>ErrorReason = Some CreateMachineError,
          ErrorMessage = Some ''boom'',
          Addresses = [\<lparr>Type = NodeInternalIP, Address = ''10.0.0.5''\<rparr>]\<rparr>\<rparr>))
   \<and> requiresUpdate (Some machine0)
       (Some (machine0\<lparr>Spec := (Spec machine0)
          \<lparr>ProviderSpec := \<lparr>Value = Some (RawExtension (Some ''{flavor}'') None)\<rparr>\<rparr>\<rparr>))
   \<and> requiresUpdate (Some machine0)
       (Some (machine0\<lparr>Spec := (Spec machine0)
          \<lparr>ProviderSpec := \<lparr>Value = Some (RawExtension (Some ''{}'')
                                             (Some (RuntimeObject ''Spec'' ''{}'')))\<rparr>\<rparr>\<rparr>))
   \<and> requiresUpdate (Some machine0)
       (Some (machine0\<lparr>Spec := (Spec machine0)
          \<lparr>Spec_ObjectMeta := (Spec_ObjectMeta (Spec machine0))\<lparr>OwnerReferences := Some []\<rparr>\<rparr>\<rparr>))
   \<and> requiresUpdate (Some machine0)
       (Some (machine0\<lparr>ObjectMeta := (ObjectMeta machine0)\<lparr>Name := ''worker-1''\<rparr>\<rparr>))
   \<and> requiresUpdate None (Some machine0)"
  using requiresUpdate_exactly
    [of "Some machine0" None machine0
        "machine0\<lparr>Spec := (Spec machine0)
           \<lparr>ProviderSpec := \<lparr>Value = Some (RawExtension (Some ''{flavor}'') None)\<rparr>\<rparr>\<rparr>"
        "\<lparr>ErrorReason = Some CreateMachineError, ErrorMessage = Some ''boom'',
          Addresses = [\<lparr>Type = NodeInternalIP, Address = ''10.0.0.5''\<rparr>]\<rparr>"]
    requiresUpdate_exactly
    [of "Some machine0" None machine0
        "machine0\<lparr>Spec := (Spec machine0)
           \<lparr>ProviderSpec := \<lparr>Value = Some (RawExtension (Some ''{}'')
                                              (Some (RuntimeObject ''Spec'' ''{}'')))\<rparr>\<rparr>\<rparr>"]
    requiresUpdate_exactly
    [of "Some machine0" None machine0
        "machine0\<lparr>Spec := (Spec machine0)
          \<lparr>Spec_ObjectMeta := (Spec_ObjectMeta (Spec machine0))\<lparr>OwnerReferences := Some []\<rparr>\<rparr>\<rparr>"]
    requiresUpdate_exactly
    [of "Some machine0" None machine0
        "machine0\<lparr>ObjectMeta := (ObjectMeta machine0)\<lparr>Name := ''worker-1''\<rparr>\<rparr>"]
  by (simp add: machine0_def)

subsection \<open>Create on a machine whose instance is live\<close>

text \<open>
  C4. Let \<^verbatim>\<open>Create\<close> get to its lookup by name (as in C1) and let the lookup find
  a live instance. Then \<^verbatim>\<open>Create\<close> returns no error, leaves the machine as it
  was, and stops at the lookup: every call of the run resolves a client, validates the
  spec or looks the instance up, so no instance is created, no user data is read or
  rendered, and no annotation is written. The history at the start is arbitrary, so
  this is also the second of two calls of \<^verbatim>\<open>Create\<close>. The example after the
  theorem runs \<^verbatim>\<open>Create\<close> twice against a cloud that holds an instance once it
  has been created: the second call returns no error and leaves the machine as the
  first left it, and the two calls together have created exactly one instance.
\<close>

theorem Create_existing_instance_noop:
  assumes "ans_Infrastructures_Get w lg ''cluster'' = Inr clusterInfraName"
    and "lg1 = lg @ [C_Infrastructures_Get TODO ''cluster'']"
    and "index (Labels (ObjectMeta machine)) cluster_label = clusterInfraName"
    and "getProviderClient w machine lg1 = (Inr (provider, cloud), lg2)"
    and "clientOpts = \<lparr>Opts_AuthInfo = AuthInfo cloud, Opts_RegionName = RegionName cloud\<rparr>"
    and "ans_compute_NewService w lg2 provider clientOpts = Inr computeService"
    and "lg3 = lg2 @ [C_compute_NewService provider clientOpts]"
    and "ans_networking_NewService w lg3 provider clientOpts = Inr networkService"
    and "lg4 = lg3 @ [C_networking_NewService provider clientOpts]"
    and "MachineSpecFromProviderSpec w (ProviderSpec (Spec machine)) = Inr providerSpec"
    and "validateMachine w machine lg4 = (None, lg5)"
    and "ans_GetInstanceStatusByName w lg5 computeService machine (Name (ObjectMeta machine))
           = Inr (Some existing)"
    and "lg6 = lg5 @ [C_GetInstanceStatusByName computeService machine (Name (ObjectMeta machine))]"
  shows "Create w ctx machine lg = (Return (None, machine), lg6)
       \<and> adds resolves_or_checks lg lg6"
proof -
  have a1: "adds resolves_or_checks lg lg1"
    unfolding assms(2) by (simp add: adds_app)
  have a2: "adds resolves_or_checks lg lg2"
    using getProviderClient_adds[OF a1, of machine w] assms(4) by simp
  have a4: "adds resolves_or_checks lg lg4"
    unfolding assms(9) assms(7) using a2 by (simp add: adds_append)
  have a5: "adds resolves_or_checks lg lg5"
    using validateMachine_adds[OF a4, of machine w] assms(11) by simp
  have a6: "adds resolves_or_checks lg lg6"
    unfolding assms(13) using a5 by (simp add: adds_append)
  have "Create w ctx machine lg = (Return (None, machine), lg6)"
    using assms by (simp add: Create_def ext_def)
  with a6 show ?thesis by simp
qed

theorem Create_existing_instance_noop_witness:
  "fst (Create remembering (WithCancel 1) machine0 []) = Return (None, created0)
   \<and> fst (Create remembering (WithCancel 1) created0
            (snd (Create remembering (WithCancel 1) machine0 []))) = Return (None, created0)
   \<and> length (filter is_CreateInstance
         (snd (Create remembering (WithCancel 1) created0
            (snd (Create remembering (WithCancel 1) machine0 []))))) = 1"
proof -
  define L where "L = snd (Create remembering (WithCancel 1) machine0 [])"
  have one: "length (filter is_CreateInstance L) = 1"
    unfolding L_def using first_create by simp
  have ex: "list_ex is_CreateInstance L"
  proof (rule ccontr)
    assume "\<not> list_ex is_CreateInstance L"
    then have "filter is_CreateInstance L = []"
      by (simp add: list_ex_iff filter_empty_conv)
    with one show False by simp
  qed
  have none: "filter is_CreateInstance (reach_lookup created0) = []"
    by (simp add: reach_lookup_def)
  have second: "Create remembering (WithCancel 1) created0 L
                  = (Return (None, created0), L @ reach_lookup created0)
                \<and> adds resolves_or_checks L (L @ reach_lookup created0)"
    using ex
      Create_existing_instance_noop
       [where w=remembering and lg=L and clusterInfraName="''c1''" and machine=created0
        and ctx="WithCancel 1" and provider=0 and cloud=cloud1 and clientOpts=opts1
        and computeService=0 and networkService=0 and providerSpec=providerSpec0
        and existing=status1
        and ?lg1.0="L @ take 1 (reach_lookup created0)"
        and ?lg2.0="L @ take 4 (reach_lookup created0)"
        and ?lg3.0="L @ take 5 (reach_lookup created0)"
        and ?lg4.0="L @ take 6 (reach_lookup created0)"
        and ?lg5.0="L @ take 10 (reach_lookup created0)"
        and ?lg6.0="L @ reach_lookup created0"]
    by (simp add: getProviderClient_def validateMachine_def ext_def ex_defs remembering_def
          created0_def cluster_label_def index_def)
  show ?thesis
    using first_create second one none unfolding L_def by simp
qed

subsection \<open>Delete on a machine with no instance\<close>

text \<open>
  C5. Let \<^verbatim>\<open>Delete\<close> get to its lookup by name (the provider client resolves and
  the compute service is built) and let the lookup find no instance. Then
  \<^verbatim>\<open>Delete\<close> returns no error and leaves the machine as it was, and every call of
  the run resolves a client or looks the instance up: no delete is issued, no event
  is recorded and the machine record is not written.
\<close>

theorem Delete_absent_instance_noop:
  assumes "getProviderClient w machine lg = (Inr (provider, cloud), lg1)"
    and "opts = \<lparr>Opts_AuthInfo = AuthInfo cloud, Opts_RegionName = RegionName cloud\<rparr>"
    and "ans_compute_NewService w lg1 provider opts = Inr computeService"
    and "lg2 = lg1 @ [C_compute_NewService provider opts]"
    and "ans_GetInstanceStatusByName w lg2 computeService machine (Name (ObjectMeta machine))
           = Inr None"
    and "lg3 = lg2 @ [C_GetInstanceStatusByName computeService machine (Name (ObjectMeta machine))]"
  shows "Delete w ctx machine lg = (None, machine, lg3) \<and> adds resolves_or_checks lg lg3"
proof -
  have "adds resolves_or_checks lg lg1"
    using getProviderClient_adds[OF adds_refl, of resolves_or_checks machine lg w] assms(1)
    by simp
  then have "adds resolves_or_checks lg lg3"
    unfolding assms(6) assms(4) by (simp add: adds_append)
  moreover have "Delete w ctx machine lg = (None, machine, lg3)"
    using assms by (simp add: Delete_def ext_def)
  ultimately show ?thesis by simp
qed

theorem Delete_absent_instance_noop_witness:
  "Delete quiet (WithCancel 1) machine0 [] =
     (None, machine0,
      [C_GetCloud machine0, C_GetCACertificate, C_GetProviderClient cloud1 [],
       C_compute_NewService 0 opts1, C_GetInstanceStatusByName 0 machine0 ''worker-0''])"
  using Delete_absent_instance_noop
     [where w=quiet and machine=machine0 and lg="[]" and provider=0 and cloud=cloud1
        and ?lg1.0="[C_GetCloud machine0, C_GetCACertificate, C_GetProviderClient cloud1 []]"
        and opts=opts1 and computeService=0 and ctx="WithCancel 1"
        and ?lg2.0="[C_GetCloud machine0, C_GetCACertificate, C_GetProviderClient cloud1 [],
                     C_compute_NewService 0 opts1]"
        and ?lg3.0="[C_GetCloud machine0, C_GetCACertificate, C_GetProviderClient cloud1 [],
                     C_compute_NewService 0 opts1,
                     C_GetInstanceStatusByName 0 machine0 ''worker-0'']"]
  by (simp add: getProviderClient_def ext_def ex_defs)

subsection \<open>The user-data pipeline\<close>




subsection \<open>The timeout configuration\<close>

text \<open>
  C7, as stated, fails: the value 153722868 is present and parses as an integer, and
  the timeout is not 153722868 minutes. The count of nanoseconds wraps in the
  \<^verbatim>\<open>int64\<close> of \<^verbatim>\<open>time.Duration\<close> and the timeout is negative.
\<close>

theorem instanceDeleteTimeout_counterexample:
  "Atoi ''153722868'' = Some 153722868
   \<and> sint (instanceDeleteTimeout
             (setenv ''CLUSTER_API_OPENSTACK_INSTANCE_DELETE_TIMEOUT'' ''153722868''))
       \<noteq> 153722868 * 60000000000
   \<and> sint (instanceDeleteTimeout
             (setenv ''CLUSTER_API_OPENSTACK_INSTANCE_DELETE_TIMEOUT'' ''153722868''))
       = - 9223371993709551616"
  by (simp add: instanceDeleteTimeout_def getTimeout_def Minute_def Second_def setenv_def
        TimeoutInstanceDelete_def Let_def Atoi_def is_digit_def digit_val_def)

text \<open>
  C7, amended. Every poll that \<^verbatim>\<open>Update\<close> starts is started with the retry
  interval and with the timeout computed from the configuration variable. Let \<open>v\<close> be
  the value of the variable. When \<open>v\<close> is present and parses as an integer \<open>n\<close> of at
  most 153722867 minutes in absolute value (about 292 years, the range of a
  \<^verbatim>\<open>time.Duration\<close>), the timeout is \<open>n\<close> minutes. When \<open>v\<close> is missing (or
  empty) or does not parse, the timeout is five minutes.
\<close>

theorem instanceDeleteTimeout_minutes:
  assumes "v = Getenv w ''CLUSTER_API_OPENSTACK_INSTANCE_DELETE_TIMEOUT''"
  shows "adds (polls_with RetryIntervalInstanceStatus (instanceDeleteTimeout (Getenv w))) lg
           (snd (Update w ctx machine lg))
       \<and> (v \<noteq> [] \<and> Atoi v = Some n \<and> - 153722867 \<le> n \<and> n \<le> 153722867
            \<longrightarrow> sint (instanceDeleteTimeout (Getenv w)) = n * 60000000000)
       \<and> (v = [] \<or> Atoi v = None
            \<longrightarrow> sint (instanceDeleteTimeout (Getenv w)) = 5 * 60000000000)"
proof -
  have "adds (polls_with RetryIntervalInstanceStatus (instanceDeleteTimeout (Getenv w))) lg
           (snd (Update w ctx machine lg))"
    using Update_actuator[OF adds_refl] by (rule adds_mono) (rule actuator_call_polls)
  then show ?thesis
    using assms sint_minutes[of n]
    by (auto simp: instanceDeleteTimeout_def getTimeout_def Minute_def Second_def
        TimeoutInstanceDelete_def Let_def)
qed

theorem instanceDeleteTimeout_minutes_witness:
  "Atoi ''10'' = Some 10
   \<and> sint (instanceDeleteTimeout (Getenv replacing)) = 10 * 60000000000
   \<and> C_PollImmediate RetryIntervalInstanceStatus 600000000000
        \<in> set (snd (Update replacing (WithCancel 1) machine0 []))
   \<and> adds (polls_with RetryIntervalInstanceStatus 600000000000) []
        (snd (Update replacing (WithCancel 1) machine0 []))
   \<and> Atoi ''5m'' = None
   \<and> sint (instanceDeleteTimeout
        (Getenv (quiet\<lparr>Getenv := setenv ''CLUSTER_API_OPENSTACK_INSTANCE_DELETE_TIMEOUT'' ''5m''\<rparr>)))
       = 5 * 60000000000
   \<and> sint (instanceDeleteTimeout (Getenv quiet)) = 5 * 60000000000"
proof -
  have a: "Atoi ''10'' = Some 10" and b: "Atoi ''5m'' = None"
    by (simp_all add: Atoi_def is_digit_def digit_val_def)
  have t: "instanceDeleteTimeout (Getenv replacing) = 600000000000"
    by (simp add: replacing_def found_def quiet_def setenv_def instanceDeleteTimeout_def
          getTimeout_def Minute_def Second_def Atoi_def is_digit_def digit_val_def)
  have g: "Getenv replacing ''CLUSTER_API_OPENSTACK_INSTANCE_DELETE_TIMEOUT'' = ''10''"
    "Getenv (quiet\<lparr>Getenv := setenv ''CLUSTER_API_OPENSTACK_INSTANCE_DELETE_TIMEOUT'' ''5m''\<rparr>)
       ''CLUSTER_API_OPENSTACK_INSTANCE_DELETE_TIMEOUT'' = ''5m''"
    "Getenv quiet ''CLUSTER_API_OPENSTACK_INSTANCE_DELETE_TIMEOUT'' = []"
    by (simp_all add: replacing_def found_def quiet_def setenv_def)
  show ?thesis
    using a b t g update_run
      instanceDeleteTimeout_minutes
        [where w=replacing and v="''10''" and n=10 and lg="[]" and ctx="WithCancel 1"
           and machine=machine0]
      instanceDeleteTimeout_minutes
        [where w="quiet\<lparr>Getenv := setenv ''CLUSTER_API_OPENSTACK_INSTANCE_DELETE_TIMEOUT'' ''5m''\<rparr>"
           and v="''5m''" and n=0]
      instanceDeleteTimeout_minutes [where w=quiet and v="[]" and n=0]
    by simp
qed

subsection \<open>The annotation recorder\<close>

text \<open>
  C8. Let the annotation-recording step find a live instance, extract its addresses,
  resolve the primary address and persist the annotations (the record update
  succeeds and returns the machine as stored). The node address set is the primary
  address as internal IP and the machine's name as host name and as internal DNS
  name. The step issues a status update exactly when this set differs from the
  addresses in the status of the machine as stored: one update, carrying the machine
  with the new set, when they differ, and none when they are equal.
\<close>

theorem updateAnnotation_status_update_iff_changed:
  assumes m1: "machine1 = machine\<lparr>ObjectMeta := (ObjectMeta machine)
                  \<lparr>Annotations := store (make_if_nil (Annotations (ObjectMeta machine)))
                      (OpenstackIdAnnotationKey w) instanceID\<rparr>\<rparr>"
    and ex: "instanceExists w machine1 lg = (Inr (Some i), lg1)"
    and ips: "getIPsFromInstance w (Some i) = Return (Inr mapAddr)"
    and ip: "getPrimaryMachineIP w mapAddr machine1 clusterInfraName lg1 = (Inr primaryIP, lg2)"
    and cl: "client_present w"
    and m2: "machine2 = machine1\<lparr>ObjectMeta := (ObjectMeta machine1)
                  \<lparr>Annotations := store (store (Annotations (ObjectMeta machine1))
                                          (OpenstackIPAnnotationKey w) primaryIP)
                                    MachineInstanceStateAnnotationName (Instance_Status i)\<rparr>\<rparr>"
    and up: "ans_client_Update w lg2 machine2 = Inr machine3"
    and na: "networkAddresses = [\<lparr>Type = NodeInternalIP, Address = primaryIP\<rparr>,
                                 \<lparr>Type = NodeHostName, Address = Name (ObjectMeta machine3)\<rparr>,
                                 \<lparr>Type = NodeInternalDNS, Address = Name (ObjectMeta machine3)\<rparr>]"
    and mc: "machineCopy = machine3\<lparr>Status := (Status machine3)\<lparr>Addresses := networkAddresses\<rparr>\<rparr>"
  shows "filter is_status_update
           (added lg (snd (updateAnnotation w machine instanceID clusterInfraName lg)))
         = (if Addresses (Status machine3) \<noteq> networkAddresses
            then [C_client_Status_Update TODO machineCopy] else [])"
proof -
  let ?P = "\<lambda>c. \<not> is_status_update c"
  have a1: "adds ?P lg lg1"
    using instanceExists_adds[OF adds_refl, of ?P machine1 lg w] ex by simp
  have a2: "adds ?P lg lg2"
    using getPrimaryMachineIP_adds[OF a1, of machine1 w mapAddr clusterInfraName] ip by simp
  obtain new where new: "lg2 = lg @ new" "filter is_status_update new = []"
    using a2 adds_filter_none[OF a2] adds_added[OF a2] by metis
  show ?thesis
    using assms new
    by (simp add: updateAnnotation_def ext_def Let_def
          split: sum.splits prod.splits option.splits)
qed

theorem updateAnnotation_status_update_iff_changed_witness:
  "filter is_status_update (added [] (snd (updateAnnotation listed machine0 ''id-1'' ''c1'' [])))
     = [C_client_Status_Update TODO (with_addresses recorded0)]
   \<and> filter is_status_update
         (added [] (snd (updateAnnotation listed (with_addresses machine0) ''id-1'' ''c1'' [])))
     = []"
  using updateAnnotation_status_update_iff_changed
     [where w=listed and machine=machine0 and instanceID="''id-1''" and clusterInfraName="''c1''"
      and lg="[]" and ?machine1.0=annotated0 and i=instance1
      and ?lg1.0="[C_NewInstanceServiceFromMachine annotated0, C_GetInstanceList 0 opts0]"
      and ?lg2.0="[C_NewInstanceServiceFromMachine annotated0, C_GetInstanceList 0 opts0]"
      and mapAddr="[(''net-a'', ''10.0.0.5'')]" and primaryIP="''10.0.0.5''"
      and ?machine2.0=recorded0 and ?machine3.0=recorded0 and networkAddresses=addresses0
      and machineCopy="with_addresses recorded0"]
    updateAnnotation_status_update_iff_changed
     [where w=listed and machine="with_addresses machine0" and instanceID="''id-1''"
      and clusterInfraName="''c1''"
      and lg="[]" and ?machine1.0="with_addresses annotated0" and i=instance1
      and ?lg1.0="[C_NewInstanceServiceFromMachine (with_addresses annotated0),
                   C_GetInstanceList 0 opts0]"
      and ?lg2.0="[C_NewInstanceServiceFromMachine (with_addresses annotated0),
                   C_GetInstanceList 0 opts0]"
      and mapAddr="[(''net-a'', ''10.0.0.5'')]" and primaryIP="''10.0.0.5''"
      and ?machine2.0="with_addresses recorded0" and ?machine3.0="with_addresses recorded0"
      and networkAddresses=addresses0
      and machineCopy="with_addresses recorded0"]
  by (simp add: instanceExists_def getIPsFromInstance_def getPrimaryMachineIP_def ext_def ex_defs
        store_def make_if_nil_def MachineInstanceStateAnnotationName_def Let_def
        NodeInternalIP_def NodeHostName_def NodeInternalDNS_def fun_upd_twist)

subsection \<open>The context of the calls\<close>

text \<open>
  C9, as stated, fails. \<^verbatim>\<open>Create\<close> is given a context that can be cancelled, and
  its first call, which reads the cluster infrastructure, is given
  \<^verbatim>\<open>context.TODO()\<close>.
\<close>

theorem supplied_context_counterexample:
  "snd (Create found (WithCancel 1) machine0 []) = reach_lookup machine0
   \<and> \<not> list_all (receives (WithCancel 1)) (snd (Create found (WithCancel 1) machine0 []))"
  by (simp add: Create_def getProviderClient_def validateMachine_def ext_def ex_defs
        cluster_label_def index_def Let_def receives_def)

text \<open>
  C9, amended. No call made during \<^verbatim>\<open>Create\<close>, \<^verbatim>\<open>Update\<close>, \<^verbatim>\<open>Delete\<close> or
  \<^verbatim>\<open>Exists\<close> is given the context that was supplied: every call that takes a
  context (reading the cluster infrastructure, reading the user-data secret, creating
  the token secret, updating the machine record, updating its status) is given
  \<^verbatim>\<open>context.TODO()\<close>, and the other calls take none. The supplied context is
  only handed from \<^verbatim>\<open>Update\<close> to \<^verbatim>\<open>Create\<close> and \<^verbatim>\<open>Delete\<close>, and no result
  depends on it.
\<close>

theorem external_calls_receive_TODO:
  "adds (receives TODO) lg (snd (Create w ctx machine lg))
   \<and> adds (receives TODO) lg (snd (Update w ctx machine lg))
   \<and> adds (receives TODO) lg (snd (snd (Delete w ctx machine lg)))
   \<and> adds (receives TODO) lg (snd (Exists w ctx machine lg))
   \<and> Create w ctx machine lg = Create w ctx' machine lg
   \<and> Update w ctx machine lg = Update w ctx' machine lg
   \<and> Delete w ctx machine lg = Delete w ctx' machine lg
   \<and> Exists w ctx machine lg = Exists w ctx' machine lg"
proof -
  have c: "Create w ctx machine lg = Create w ctx' machine lg" for machine lg
    by (simp add: Create_def)
  have d: "Delete w ctx machine lg = Delete w ctx' machine lg" for machine lg
    by (simp add: Delete_def)
  have u: "Update w ctx machine lg = Update w ctx' machine lg"
    unfolding Update_def c d ..
  have e: "Exists w ctx machine lg = Exists w ctx' machine lg"
    by (simp add: Exists_def)
  have r: "adds (receives TODO) lg lg'" if "adds (actuator_call w) lg lg'" for lg'
    using that by (rule adds_mono) (rule actuator_call_receives)
  show ?thesis
    using r[OF Create_actuator[OF adds_refl]] r[OF Update_actuator[OF adds_refl]]
      r[OF Delete_actuator[OF adds_refl]] r[OF Exists_actuator[OF adds_refl]] c d u e
    by blast
qed

theorem external_calls_receive_TODO_witness:
  "adds (receives TODO) [] (snd (Exists quiet (WithCancel 1) machine0 []))
   \<and> adds (receives TODO) [] (snd (snd (Delete quiet (WithCancel 1) machine0 [])))
   \<and> adds (receives TODO) [] (snd (Create found (WithCancel 1) machine0 []))
   \<and> Create found (WithCancel 1) machine0 [] = Create found Background machine0 []"
  using external_calls_receive_TODO [of "[]" quiet "WithCancel 1" machine0 Background]
    external_calls_receive_TODO [of "[]" found "WithCancel 1" machine0 Background]
  by blast

subsection \<open>The access address\<close>

text \<open>
  C10. For an instance whose access IPv4 field is not empty and parses as an IP
  address, the address extraction returns the map with the single entry from the
  empty string to that address, whatever the per-network address lists hold; and on
  that map the resolver returns the address and makes no call, so no subnet is
  fetched and no network is searched by tag.
\<close>

theorem access_ip_single_entry_shortcut:
  assumes "AccessIPv4 i \<noteq> []" and "ParseIP w (AccessIPv4 i)"
  shows "getIPsFromInstance w (Some i) = Return (Inr [([], AccessIPv4 i)])
       \<and> getIPsFromInstance w (Some (i\<lparr>Instance_Addresses := addresses\<rparr>))
           = getIPsFromInstance w (Some i)
       \<and> getPrimaryMachineIP w [([], AccessIPv4 i)] machine clusterInfraName lg
           = (Inr (AccessIPv4 i), lg)"
  using assms by (simp add: getIPsFromInstance_def getPrimaryMachineIP_def)

theorem access_ip_single_entry_shortcut_witness:
  "getIPsFromInstance access_world (Some (instance1\<lparr>AccessIPv4 := ''203.0.113.7''\<rparr>))
     = Return (Inr [([], ''203.0.113.7'')])
   \<and> getPrimaryMachineIP access_world [([], ''203.0.113.7'')] machine0 ''c1'' []
     = (Inr ''203.0.113.7'', [])"
  using access_ip_single_entry_shortcut
     [where w=access_world and i="instance1\<lparr>AccessIPv4 := ''203.0.113.7''\<rparr>"
      and machine=machine0 and clusterInfraName="''c1''" and lg="[]"]
  by (simp add: access_world_def instance1_def quiet_def)

end
